theory Spec2Isabelle
  imports
    Main
    "HOL-Library.Sublist"
    "HOL-Library.Char_ord"
    "HOL-Library.List_Lexorder"
    "HOL-Library.FSet"
    "HOL-Library.Multiset"
begin

section \<open>Conventions\<close>

text \<open>
  The two scripts, \<^verbatim>\<open>parse_pypi.py\<close> and \<^verbatim>\<open>detect_projects.py\<close>, are modelled function by
  function, under the names of the source. A few names are taken by HOL constants or by
  another record and are changed: the fields \<open>name\<close>, \<open>size\<close> and \<open>isfile()\<close> of a tar entry
  are \<open>tar_name\<close>, \<open>tar_size\<close> and \<open>tar_isfile\<close>; the field \<open>filename\<close> of
  \<open>PypiReleaseDownload\<close> is \<open>release_filename\<close>; the variables \<open>total\<close> and \<open>count\<close> are
  \<open>tot\<close> and \<open>cnt\<close>; \<open>main\<close> of \<^verbatim>\<open>detect_projects.py\<close> is \<open>detect_main\<close>. Strings are lists of
  bytes, UTF-8 for what is not ASCII.
\<close>

section \<open>Paths (pathlib, POSIX flavour)\<close>

text \<open>
  \<open>Path\<close> is modelled as pathlib's POSIX flavour. A parsed path is its root (empty, one
  slash or two slashes) and the list of its components; two paths are equal when both
  agree, which is how pathlib compares them.
\<close>

record pure_path =
  root :: string
  tail :: "string list"

text \<open>\<open>str.split(sep)\<close> for a one-character separator.\<close>

fun split_sep :: "char \<Rightarrow> string \<Rightarrow> string list" where
  "split_sep c [] = [ [] ]"
| "split_sep c (x # xs) =
     (if x = c then [] # split_sep c xs
      else (case split_sep c xs of
              [] \<Rightarrow> [ [x] ]
            | w # ws \<Rightarrow> (x # w) # ws))"

text \<open>\<open>posixpath.splitroot\<close>: exactly two leading slashes are kept as a root of their own.\<close>

definition splitroot :: "string \<Rightarrow> string \<times> string" where
  "splitroot p =
     (if take 1 p \<noteq> ''/'' then ('''', p)
      else if take 1 (drop 1 p) \<noteq> ''/'' \<or> take 1 (drop 2 p) = ''/'' then (''/'', drop 1 p)
      else (take 2 p, drop 2 p))"

text \<open>\<open>Path(s)\<close>: empty components and \<open>.\<close> components are dropped.\<close>

definition Path :: "string \<Rightarrow> pure_path" where
  "Path s =
     (case splitroot s of
        (r, rel) \<Rightarrow> \<lparr>root = r, tail = filter (\<lambda>x. x \<noteq> [] \<and> x \<noteq> ''.'') (split_sep CHR ''/'' rel)\<rparr>)"

definition path_name :: "pure_path \<Rightarrow> string" where
  "path_name p = (if tail p = [] then [] else last (tail p))"

text \<open>\<open>str.rfind(c)\<close>, with \<open>None\<close> for \<open>-1\<close>.\<close>

fun rfind :: "char \<Rightarrow> string \<Rightarrow> nat option" where
  "rfind c [] = None"
| "rfind c (x # xs) =
     (case rfind c xs of
        Some i \<Rightarrow> Some (Suc i)
      | None \<Rightarrow> if x = c then Some 0 else None)"

text \<open>
  \<open>PurePath.suffix\<close>, as pathlib defines it up to Python 3.13: the part of the name from
  its last dot on, when that dot is neither the first nor the last character of the name.
\<close>

definition path_suffix :: "pure_path \<Rightarrow> string" where
  "path_suffix p =
     (case rfind CHR ''.'' (path_name p) of
        None \<Rightarrow> []
      | Some i \<Rightarrow> if 0 < i \<and> Suc i < length (path_name p) then drop i (path_name p) else [])"

definition path_parent :: "pure_path \<Rightarrow> pure_path" where
  "path_parent p = (if tail p = [] then p else p\<lparr>tail := butlast (tail p)\<rparr>)"

text \<open>\<open>PurePath.parents\<close>: entry \<open>i\<close> drops the last \<open>i + 1\<close> components.\<close>

definition path_parents :: "pure_path \<Rightarrow> pure_path list" where
  "path_parents p =
     map (\<lambda>i. p\<lparr>tail := take (length (tail p) - i - 1) (tail p)\<rparr>) [0..<length (tail p)]"

section \<open>Archive entries\<close>

text \<open>
  An archive is the list of its entries, in archive order. What the archive libraries
  report about an entry (\<open>is_dir()\<close>, \<open>isfile()\<close>, the sizes) is a field of the entry.
\<close>

record zip_info =
  filename :: string
  file_size :: nat
  is_dir :: bool

record tar_info =
  tar_name :: string
  tar_size :: nat
  tar_isfile :: bool

text \<open>\<open>TarInfo.path\<close> is a property returning \<open>name\<close>.\<close>

definition tar_path :: "tar_info \<Rightarrow> string" where
  "tar_path t = tar_name t"

datatype source = ZipFile "zip_info list" | TarFile "tar_info list"

section \<open>The typed-coverage evaluator (\<^verbatim>\<open>parse_pypi.py\<close>)\<close>

definition py_file_suffixes :: "string set" where
  "py_file_suffixes = {''.py'', ''.pyi''}"

fun path_iter :: "source \<Rightarrow> pure_path list" where
  "path_iter (ZipFile infolist) =
     map (\<lambda>zi. Path (filename zi))
       (filter (\<lambda>zi. (\<not> is_dir zi)
                    \<and> \<not> (path_name (Path (filename zi)) = ''__init__.py'' \<and> file_size zi = 0))
          infolist)"
| "path_iter (TarFile members) =
     map (\<lambda>ti. Path (tar_path ti))
       (filter (\<lambda>ti. tar_isfile ti
                    \<and> \<not> (path_name (Path (tar_name ti)) = ''__init__.py'' \<and> tar_size ti = 0))
          members)"

text \<open>
  The generator \<open>path_iter\<close> above, and one iteration of the loop over it; the state of the
  loop is \<open>(py_typed_dirs, all_python_files)\<close>.
\<close>

fun classify :: "pure_path list \<times> pure_path list \<Rightarrow> pure_path \<Rightarrow> pure_path list \<times> pure_path list" where
  "classify (py_typed_dirs, all_python_files) path =
     (if path_suffix path \<in> py_file_suffixes then (py_typed_dirs, all_python_files @ [path])
      else if path_name path = ''py.typed'' then (py_typed_dirs @ [path_parent path], all_python_files)
      else (py_typed_dirs, all_python_files))"

definition scan :: "pure_path list \<Rightarrow> pure_path list \<times> pure_path list" where
  "scan paths = foldl classify ([], []) paths"

text \<open>The final loop, with its early \<open>return False\<close>.\<close>

fun all_covered :: "pure_path list \<Rightarrow> pure_path list \<Rightarrow> bool" where
  "all_covered py_typed_dirs [] = True"
| "all_covered py_typed_dirs (path # rest) =
     (if \<not> list_ex (\<lambda>py_typed_dir. py_typed_dir \<in> set (path_parents path)) py_typed_dirs
      then False
      else all_covered py_typed_dirs rest)"

definition all_py_files_in_source_are_in_py_typed_dirs :: "source \<Rightarrow> bool" where
  "all_py_files_in_source_are_in_py_typed_dirs src =
     (case scan (path_iter src) of
        (py_typed_dirs, all_python_files) \<Rightarrow>
          if py_typed_dirs = [] then False
          else if all_python_files = [] then False
          else all_covered py_typed_dirs all_python_files)"

section \<open>The coverage policy in the words of the specification\<close>

text \<open>
  The regular-file entries of an archive, as parsed path and size: the entries that are
  not directories in a zip archive, the regular files in a tar archive.
\<close>

fun file_entries :: "source \<Rightarrow> (pure_path \<times> nat) list" where
  "file_entries (ZipFile infolist) =
     map (\<lambda>zi. (Path (filename zi), file_size zi)) (filter (\<lambda>zi. \<not> is_dir zi) infolist)"
| "file_entries (TarFile members) =
     map (\<lambda>ti. (Path (tar_name ti), tar_size ti)) (filter tar_isfile members)"

definition marker_dirs :: "source \<Rightarrow> pure_path list" where
  "marker_dirs src =
     map (\<lambda>e. path_parent (fst e)) (filter (\<lambda>e. path_name (fst e) = ''py.typed'') (file_entries src))"

definition placeholder_init :: "pure_path \<times> nat \<Rightarrow> bool" where
  "placeholder_init e = (path_name (fst e) = ''__init__.py'' \<and> snd e = 0)"

definition source_files :: "source \<Rightarrow> pure_path list" where
  "source_files src =
     map fst (filter (\<lambda>e. \<not> placeholder_init e
                          \<and> (path_suffix (fst e) = ''.py'' \<or> path_suffix (fst e) = ''.pyi''))
                (file_entries src))"

definition is_ancestor :: "pure_path \<Rightarrow> pure_path \<Rightarrow> bool" where
  "is_ancestor d p = (root d = root p \<and> strict_prefix (tail d) (tail p))"

text \<open>The two lists the scanning loop has built when it ends.\<close>

definition py_typed_dirs :: "source \<Rightarrow> pure_path list" where
  "py_typed_dirs src = fst (scan (path_iter src))"

definition all_python_files :: "source \<Rightarrow> pure_path list" where
  "all_python_files src = snd (scan (path_iter src))"

text \<open>
  The archive with one more regular file, named \<open>n\<close> and of size \<open>k\<close>, placed before
  the entry at position \<open>i\<close> (at the end when the archive is shorter).
\<close>

fun insert_file :: "nat \<Rightarrow> string \<Rightarrow> nat \<Rightarrow> source \<Rightarrow> source" where
  "insert_file i n k (ZipFile infolist) =
     ZipFile (take i infolist @ \<lparr>filename = n, file_size = k, is_dir = False\<rparr> # drop i infolist)"
| "insert_file i n k (TarFile members) =
     TarFile (take i members @ \<lparr>tar_name = n, tar_size = k, tar_isfile = True\<rparr> # drop i members)"

text \<open>Example archives.\<close>

definition example_zip :: source where
  "example_zip = ZipFile
     [\<lparr>filename = ''pkg/'', file_size = 0, is_dir = True\<rparr>,
      \<lparr>filename = ''pkg/py.typed'', file_size = 0, is_dir = False\<rparr>,
      \<lparr>filename = ''pkg/__init__.py'', file_size = 0, is_dir = False\<rparr>,
      \<lparr>filename = ''pkg/sub/mod.py'', file_size = 12, is_dir = False\<rparr>,
      \<lparr>filename = ''pkg/sub/mod.pyi'', file_size = 7, is_dir = False\<rparr>]"

definition covered_infolist :: "zip_info list" where
  "covered_infolist =
     [\<lparr>filename = ''pkg/py.typed'', file_size = 0, is_dir = False\<rparr>,
      \<lparr>filename = ''pkg/mod.py'', file_size = 12, is_dir = False\<rparr>]"

definition covered_members :: "tar_info list" where
  "covered_members =
     [\<lparr>tar_name = ''pkg-1.0/pkg/py.typed'', tar_size = 0, tar_isfile = True\<rparr>,
      \<lparr>tar_name = ''pkg-1.0/pkg/mod.py'', tar_size = 12, tar_isfile = True\<rparr>]"

definition covered_zip :: source where
  "covered_zip = ZipFile covered_infolist"

definition covered_tar :: source where
  "covered_tar = TarFile covered_members"

section \<open>The classifier and its orchestration (\<^verbatim>\<open>parse_pypi.py\<close>)\<close>

text \<open>
  Exceptions are values. \<open>KeyError\<close>, \<open>IndexError\<close> and \<open>AssertionError\<close> are raised by the
  scripts' own code; the others come from the libraries they call: \<open>ClientResponseError\<close>
  from \<open>raise_for_status()\<close>, \<open>ClientError\<close> for any transport failure or timeout,
  \<open>ContentTypeError\<close> from \<open>response.json()\<close>, \<open>BadZipFile\<close> and \<open>ReadError\<close> from opening
  an archive, \<open>URLError\<close>, \<open>OSError\<close> and \<open>CalledProcessError\<close> in \<^verbatim>\<open>detect_projects.py\<close>.
  All of them are subclasses of \<open>Exception\<close>. Messages are not modelled.
\<close>

datatype error =
    KeyError string
  | IndexError
  | AssertionError
  | ClientResponseError nat
  | ClientError
  | ContentTypeError
  | BadZipFile
  | ReadError
  | URLError
  | OSError
  | CalledProcessError

type_synonym bytes = "char list"

text \<open>
  One release descriptor of the index's JSON answer is a dictionary of strings; the answer
  itself is a dictionary whose keys \<open>releases\<close> and \<open>info\<close> may be missing.
\<close>

type_synonym release_dict = "string \<rightharpoonup> string"

record pypi_json =
  releases :: "(string \<rightharpoonup> release_dict list) option"
  info :: "(string \<rightharpoonup> string) option"

text \<open>
  What a request returns: the status, what \<open>response.json()\<close> gives and what
  \<open>response.read()\<close> gives.
\<close>

record response =
  status :: nat
  json_body :: "error + pypi_json"
  content :: "error + bytes"

text \<open>
  Everything outside the script: the network (a request either fails in transport or
  returns a response, as a function of the URL; the ten-minute timeout of the download is
  one of the transport failures), \<open>urllib.parse.quote\<close>, the two archive readers, and the
  \<open>project\<close> column of the input table.
\<close>

record world =
  http_get :: "string \<Rightarrow> error + response"
  quote :: "string \<Rightarrow> string"
  open_zip :: "bytes \<Rightarrow> error + zip_info list"
  open_tar :: "bytes \<Rightarrow> error + tar_info list"
  input_file :: "string list"

text \<open>One constructor for each logging call of the script, with the values it formats.\<close>

datatype log_record =
    UnexpectedStatus nat string
  | StubCheckError string error
  | ErrorProcessing nat nat string error
  | Result nat nat string bool "bool option"
  | Skipping nat nat string
  | Finished nat nat

text \<open>
  The state the tasks share: the requests issued so far, each with the package whose task
  issued it, the log, and the output table. The table is \<open>None\<close> while the file does not
  exist; when it exists it is the header and the rows written so far, kept as typed rows
  (\<open>package\<close>, \<open>has_py_typed\<close>, \<open>has_types_package\<close>).
\<close>

type_synonym row = "string \<times> bool \<times> bool option"

record state =
  requests :: "(string \<times> string) list"
  logged :: "log_record list"
  output_file :: "row list option"

record PypiReleaseDownload =
  distribution :: string
  url :: string
  packagetype :: string
  release_filename :: string

text \<open>\<open>str.endswith\<close>.\<close>

definition endswith :: "string \<Rightarrow> string \<Rightarrow> bool" where
  "endswith s suf = (length suf \<le> length s \<and> drop (length s - length suf) s = suf)"

text \<open>\<open>PYPI_JSON_URL.format(package=...)\<close>.\<close>

definition PYPI_JSON_URL :: "string \<Rightarrow> string" where
  "PYPI_JSON_URL package = ''https://pypi.org/pypi/'' @ package @ ''/json''"

text \<open>\<open>session.get(url)\<close> issued by the task of package \<open>task\<close>.\<close>

definition session_get :: "world \<Rightarrow> string \<Rightarrow> string \<Rightarrow> state \<Rightarrow> state \<times> (error + response)" where
  "session_get w task u s = (s\<lparr>requests := requests s @ [(task, u)]\<rparr>, http_get w u)"

text \<open>Dictionary subscription \<open>d[k]\<close>.\<close>

definition getitem :: "(string \<rightharpoonup> 'v) \<Rightarrow> string \<Rightarrow> error + 'v" where
  "getitem d k = (case d k of None \<Rightarrow> Inl (KeyError k) | Some v \<Rightarrow> Inr v)"

text \<open>
  The sort key \<open>bool(x["packagetype"] == "bdist_wheel")\<close>, and
  \<open>sorted(releases[version], key=...)[-1]\<close>: computing the key raises \<open>KeyError\<close> when a
  descriptor has no \<open>packagetype\<close>, the index \<open>[-1]\<close> raises \<open>IndexError\<close> on an empty list.
  \<open>sorted\<close> is stable, as \<open>sort_key\<close> is.
\<close>

definition is_wheel :: "release_dict \<Rightarrow> bool" where
  "is_wheel x = (x ''packagetype'' = Some ''bdist_wheel'')"

definition select_release :: "release_dict list \<Rightarrow> error + release_dict" where
  "select_release rs =
     (if list_ex (\<lambda>x. x ''packagetype'' = None) rs then Inl (KeyError ''packagetype'')
      else (case sort_key is_wheel rs of
              [] \<Rightarrow> Inl IndexError
            | y # ys \<Rightarrow> Inr (last (y # ys))))"

text \<open>The body of \<open>fetch_latest_pypi_release\<close> after \<open>j = await response.json()\<close>.\<close>

definition parse_release :: "string \<Rightarrow> pypi_json \<Rightarrow> error + PypiReleaseDownload" where
  "parse_release package j =
     (case releases j of None \<Rightarrow> Inl (KeyError ''releases'') | Some rels \<Rightarrow>
      case info j of None \<Rightarrow> Inl (KeyError ''info'') | Some info_dict \<Rightarrow>
      case getitem info_dict ''version'' of Inl e \<Rightarrow> Inl e | Inr version \<Rightarrow>
      case getitem rels version of Inl e \<Rightarrow> Inl e | Inr rs \<Rightarrow>
      case select_release rs of Inl e \<Rightarrow> Inl e | Inr release_info \<Rightarrow>
      case getitem release_info ''url'' of Inl e \<Rightarrow> Inl e | Inr u \<Rightarrow>
      case getitem release_info ''packagetype'' of Inl e \<Rightarrow> Inl e | Inr pt \<Rightarrow>
      case getitem release_info ''filename'' of Inl e \<Rightarrow> Inl e | Inr fn \<Rightarrow>
        Inr \<lparr>distribution = package, url = u, packagetype = pt, release_filename = fn\<rparr>)"

definition fetch_latest_pypi_release ::
  "world \<Rightarrow> string \<Rightarrow> state \<Rightarrow> state \<times> (error + PypiReleaseDownload)" where
  "fetch_latest_pypi_release w package s =
     (case session_get w package (PYPI_JSON_URL (quote w package)) s of
        (s', Inl e) \<Rightarrow> (s', Inl e)
      | (s', Inr resp) \<Rightarrow>
          if 400 \<le> status resp then (s', Inl (ClientResponseError (status resp)))
          else (case json_body resp of
                  Inl e \<Rightarrow> (s', Inl e)
                | Inr j \<Rightarrow> (s', parse_release package j)))"

text \<open>
  The body of \<open>release_contains_py_typed\<close> after the download: the dispatch on
  \<open>packagetype\<close> and on the suffix of the file name.
\<close>

definition scan_body :: "world \<Rightarrow> PypiReleaseDownload \<Rightarrow> bytes \<Rightarrow> error + bool" where
  "scan_body w release_to_download body =
     (if packagetype release_to_download = ''bdist_wheel'' then
        if \<not> endswith (release_filename release_to_download) ''.whl'' then Inl AssertionError
        else (case open_zip w body of
                Inl e \<Rightarrow> Inl e
              | Inr zf \<Rightarrow> Inr (all_py_files_in_source_are_in_py_typed_dirs (ZipFile zf)))
      else if packagetype release_to_download = ''sdist'' then
        if endswith (release_filename release_to_download) ''.tar.gz'' then
          (case open_tar w body of
             Inl e \<Rightarrow> Inl e
           | Inr zf \<Rightarrow> Inr (all_py_files_in_source_are_in_py_typed_dirs (TarFile zf)))
        else if endswith (release_filename release_to_download) ''.zip'' then
          (case open_zip w body of
             Inl e \<Rightarrow> Inl e
           | Inr zf \<Rightarrow> Inr (all_py_files_in_source_are_in_py_typed_dirs (ZipFile zf)))
        else Inl AssertionError
      else Inl AssertionError)"

definition release_contains_py_typed ::
  "world \<Rightarrow> PypiReleaseDownload \<Rightarrow> state \<Rightarrow> state \<times> (error + bool)" where
  "release_contains_py_typed w release_to_download s =
     (case session_get w (distribution release_to_download) (url release_to_download) s of
        (s', Inl e) \<Rightarrow> (s', Inl e)
      | (s', Inr resp) \<Rightarrow>
          (case content resp of
             Inl e \<Rightarrow> (s', Inl e)
           | Inr body \<Rightarrow> (s', scan_body w release_to_download body)))"

definition is_typed_package :: "world \<Rightarrow> string \<Rightarrow> state \<Rightarrow> state \<times> (error + bool)" where
  "is_typed_package w package s =
     (case fetch_latest_pypi_release w package s of
        (s', Inl e) \<Rightarrow> (s', Inl e)
      | (s', Inr latest_release) \<Rightarrow> release_contains_py_typed w latest_release s')"

definition has_types_stub_package :: "world \<Rightarrow> string \<Rightarrow> state \<Rightarrow> state \<times> bool option" where
  "has_types_stub_package w package s =
     (let stub_package = ''types-'' @ package;
          u = PYPI_JSON_URL (quote w stub_package)
      in case session_get w package u s of
           (s', Inr resp) \<Rightarrow>
             if status resp = 200 then (s', Some True)
             else if status resp = 404 then (s', Some False)
             else (s'\<lparr>logged := logged s' @ [UnexpectedStatus (status resp) stub_package]\<rparr>, None)
         | (s', Inl e) \<Rightarrow>
             (s'\<lparr>logged := logged s' @ [StubCheckError package e]\<rparr>, None))"

text \<open>
  The header is written when the file does not exist yet; then the row is appended.
  Failures of the file system are not modelled.
\<close>

definition append_result_to_csv :: "string \<Rightarrow> bool \<Rightarrow> bool option \<Rightarrow> state \<Rightarrow> state" where
  "append_result_to_csv package has_py_typed has_types_package s =
     (case output_file s of
        None \<Rightarrow> s\<lparr>output_file := Some [(package, has_py_typed, has_types_package)]\<rparr>
      | Some rows \<Rightarrow> s\<lparr>output_file := Some (rows @ [(package, has_py_typed, has_types_package)])\<rparr>)"

text \<open>The loop keeps a row while \<open>num <= max_count\<close> and stops at the first row beyond.\<close>

definition get_package_names :: "string list \<Rightarrow> int option \<Rightarrow> string list" where
  "get_package_names rows max_count =
     (case max_count of
        None \<Rightarrow> rows
      | Some m \<Rightarrow> map snd (takeWhile (\<lambda>(num, r). int num \<le> m) (enumerate 0 rows)))"

definition load_processed_packages :: "state \<Rightarrow> string set" where
  "load_processed_packages s =
     (case output_file s of
        None \<Rightarrow> {}
      | Some rows \<Rightarrow> set (map fst rows))"

text \<open>
  The \<open>try\<close> block covers both awaits and catches every \<open>Exception\<close>; writing the row and
  logging the result come after it.
\<close>

definition process_package ::
  "world \<Rightarrow> string \<Rightarrow> nat \<Rightarrow> nat \<Rightarrow> state \<Rightarrow> state \<times> (error + unit)" where
  "process_package w pkg i tot s =
     (case is_typed_package w pkg s of
        (s1, Inl e) \<Rightarrow> (s1\<lparr>logged := logged s1 @ [ErrorProcessing i tot pkg e]\<rparr>, Inr ())
      | (s1, Inr has_py_typed) \<Rightarrow>
          (case (if \<not> has_py_typed then has_types_stub_package w pkg s1 else (s1, None)) of
             (s2, has_types_package) \<Rightarrow>
               let s3 = append_result_to_csv pkg has_py_typed has_types_package s2
               in (s3\<lparr>logged := logged s3 @ [Result i tot pkg has_py_typed has_types_package]\<rparr>,
                   Inr ())))"

text \<open>
  \<open>asyncio.gather\<close>: the tasks are run one after the other in list order, which is one of
  the schedules of the event loop; a task that raised would make \<open>gather\<close> raise.
\<close>

fun gather :: "world \<Rightarrow> (string \<times> nat \<times> nat) list \<Rightarrow> state \<Rightarrow> state \<times> (error + unit)" where
  "gather w [] s = (s, Inr ())"
| "gather w ((pkg, i, tot) # tasks) s =
     (case process_package w pkg i tot s of
        (s', Inl e) \<Rightarrow> (s', Inl e)
      | (s', Inr u) \<Rightarrow> gather w tasks s')"

text \<open>
  The loop of \<open>main\<close> over \<open>enumerate(packages, start=1)\<close>; its state is the log, the list of
  tasks and the counter \<open>skipped\<close>.
\<close>

fun schedule ::
  "string set \<Rightarrow> nat \<Rightarrow> (nat \<times> string) list \<Rightarrow> state \<times> (string \<times> nat \<times> nat) list \<times> nat
     \<Rightarrow> state \<times> (string \<times> nat \<times> nat) list \<times> nat" where
  "schedule processed tot [] acc = acc"
| "schedule processed tot ((i, pkg) # rest) (s, tasks, skipped) =
     (if pkg \<in> processed
      then schedule processed tot rest
             (s\<lparr>logged := logged s @ [Skipping i tot pkg]\<rparr>, tasks, skipped + 1)
      else schedule processed tot rest (s, tasks @ [(pkg, i, tot)], skipped))"

definition main :: "world \<Rightarrow> state \<Rightarrow> state \<times> (error + unit)" where
  "main w s =
     (let packages = get_package_names (input_file w) (Some 100);
          processed = load_processed_packages s;
          tot = length packages
      in case schedule processed tot (enumerate 1 packages) (s, [], 0) of
           (s1, tasks, skipped) \<Rightarrow>
             (case gather w tasks s1 of
                (s2, Inl e) \<Rightarrow> (s2, Inl e)
              | (s2, Inr u) \<Rightarrow>
                  (s2\<lparr>logged := logged s2 @ [Finished (tot - skipped) skipped]\<rparr>, Inr ())))"

section \<open>New-package detection (\<^verbatim>\<open>detect_projects.py\<close>)\<close>

text \<open>
  A table read by \<open>csv.DictReader\<close> is the list of its rows, each a dictionary from column
  name to cell. Python sets of names are finite sets.
\<close>

type_synonym csv_row = "string \<rightharpoonup> string"

text \<open>One open issue as \<open>gh issue list --json title,number,labels\<close> reports it.\<close>

record issue =
  title :: string
  number :: nat
  labels :: "string list"

text \<open>
  What the script reads and calls: the remote table and the local table (reading either
  may fail), the issue search, and the command that edits or creates an issue.
\<close>

record detect_world =
  remote_csv :: "error + csv_row list"
  local_csv :: "error + csv_row list"
  gh_issue_list :: "string \<Rightarrow> error + issue list"
  gh_run :: "string list \<Rightarrow> error + unit"

definition NON_EXISTENT_PROJECTS :: "string fset" where
  "NON_EXISTENT_PROJECTS = {|''aaaaaaaaa'', ''pyairports''|}"

text \<open>A row contributes its cell when it has the column and the cell is not empty.\<close>

definition get_names_from_csv :: "csv_row list \<Rightarrow> string \<Rightarrow> string fset" where
  "get_names_from_csv reader column_name =
     fset_of_list
       (concat (map (\<lambda>row. case row column_name of
                               None \<Rightarrow> []
                             | Some v \<Rightarrow> if v \<noteq> [] then [v] else []) reader))"

definition get_original_packages :: "detect_world \<Rightarrow> error + string fset" where
  "get_original_packages w =
     (case remote_csv w of
        Inl e \<Rightarrow> Inl e
      | Inr file \<Rightarrow> Inr (get_names_from_csv file ''project''))"

definition get_local_packages :: "detect_world \<Rightarrow> error + string fset" where
  "get_local_packages w =
     (case local_csv w of
        Inl e \<Rightarrow> Inl e
      | Inr file \<Rightarrow> Inr (get_names_from_csv file ''package''))"

text \<open>\<open>str(n)\<close> for a natural number.\<close>

fun str_nat :: "nat \<Rightarrow> string" where
  "str_nat n =
     (if n < 10 then [''0123456789'' ! n]
      else str_nat (n div 10) @ [''0123456789'' ! (n mod 10)])"

declare str_nat.simps [simp del]

text \<open>The title starts with the rocket emoji, four bytes in UTF-8.\<close>

definition issue_title :: string where
  "issue_title = [CHR 0xF0, CHR 0x9F, CHR 0x9A, CHR 0x80]
                   @ '' New PyPI projects missing from local dataset''"

definition max_display :: nat where
  "max_display = 20"

text \<open>The first part of \<open>issue_body\<close>, an f-string over \<open>count\<close>.\<close>

definition body_header :: "nat \<Rightarrow> string" where
  "body_header cnt =
     str_nat cnt @ '' new package'' @ (if cnt \<noteq> 1 then ''s'' else '''') @ '' were found  in ''
     @ ''[top-pypi-packages](https://github.com/hugovk/top-pypi-packages/blob/main/top-pypi-packages.csv) ''
     @ ''that are missing from our dataset.'' @ [CHR 0x0A, CHR 0x0A]"

text \<open>
  The part of \<open>create_or_update_issue\<close> that builds \<open>issue_body\<close>: the loop appends one line
  for each displayed package, then the overflow line when \<open>hidden_count > 0\<close>.
  \<open>sorted\<close> compares strings by code point, as the lexicographic order on bytes does for
  UTF-8.
\<close>

definition compose_body :: "string fset \<Rightarrow> string" where
  "compose_body packages =
     (let cnt = fcard packages;
          sorted_packages = sorted_list_of_fset packages;
          displayed = take max_display sorted_packages;
          hidden_count = int cnt - int max_display;
          issue_body = foldl (\<lambda>body pkg. body @ ''- '' @ pkg @ [CHR 0x0A]) (body_header cnt) displayed
      in if hidden_count > 0
         then issue_body @ [CHR 0x0A] @ ''... and '' @ str_nat (nat hidden_count) @ '' more.''
         else issue_body)"

text \<open>
  The result is the \<open>gh\<close> command that was run. \<open>find\<close> returns the first open issue with
  the title and the label, as the loop with \<open>break\<close> does.
\<close>

definition create_or_update_issue :: "detect_world \<Rightarrow> string fset \<Rightarrow> error + string list" where
  "create_or_update_issue w packages =
     (let issue_body = compose_body packages
      in case gh_issue_list w issue_title of
           Inl e \<Rightarrow> Inl e
         | Inr issues \<Rightarrow>
             (case find (\<lambda>issue. title issue = issue_title \<and> ''new package'' \<in> set (labels issue)) issues of
                Some existing_issue \<Rightarrow>
                  (let cmd = [''gh'', ''issue'', ''edit'', str_nat (number existing_issue),
                              ''--body'', issue_body]
                   in case gh_run w cmd of Inl e \<Rightarrow> Inl e | Inr u \<Rightarrow> Inr cmd)
              | None \<Rightarrow>
                  (let cmd = [''gh'', ''issue'', ''create'', ''--title'', issue_title,
                              ''--body'', issue_body, ''--label'', ''new package, enhancement'']
                   in case gh_run w cmd of Inl e \<Rightarrow> Inl e | Inr u \<Rightarrow> Inr cmd)))"

text \<open>The local variable \<open>new_packages\<close> of \<open>main\<close>.\<close>

definition new_packages :: "string fset \<Rightarrow> string fset \<Rightarrow> string fset" where
  "new_packages original local = original |-| local |-| NON_EXISTENT_PROJECTS"

text \<open>\<open>main\<close> of \<^verbatim>\<open>detect_projects.py\<close>; \<open>None\<close> when no issue is filed.\<close>

definition detect_main :: "detect_world \<Rightarrow> error + string list option" where
  "detect_main w =
     (case get_original_packages w of
        Inl e \<Rightarrow> Inl e
      | Inr original \<Rightarrow>
          (case get_local_packages w of
             Inl e \<Rightarrow> Inl e
           | Inr local \<Rightarrow>
               if new_packages original local \<noteq> {||}
               then (case create_or_update_issue w (new_packages original local) of
                       Inl e \<Rightarrow> Inl e
                     | Inr cmd \<Rightarrow> Inr (Some cmd))
               else Inr None))"

text \<open>The local variable \<open>displayed\<close> of \<open>create_or_update_issue\<close>.\<close>

definition displayed :: "string fset \<Rightarrow> string list" where
  "displayed packages = take max_display (sorted_list_of_fset packages)"

section \<open>Observations on a run\<close>

text \<open>The state before anything has happened: no request, no log, no output file.\<close>

definition s0 :: state where
  "s0 = \<lparr>requests = [], logged = [], output_file = None\<rparr>"

text \<open>
  What each step returns and which requests it issues do not depend on the state it
  starts from; they are read off a run from the empty state.
\<close>

definition fetch_result :: "world \<Rightarrow> string \<Rightarrow> error + PypiReleaseDownload" where
  "fetch_result w package = snd (fetch_latest_pypi_release w package s0)"

definition download_result :: "world \<Rightarrow> PypiReleaseDownload \<Rightarrow> error + bool" where
  "download_result w r = snd (release_contains_py_typed w r s0)"

definition typed_result :: "world \<Rightarrow> string \<Rightarrow> error + bool" where
  "typed_result w package = snd (is_typed_package w package s0)"

definition typed_requests :: "world \<Rightarrow> string \<Rightarrow> (string \<times> string) list" where
  "typed_requests w package = requests (fst (is_typed_package w package s0))"

definition stub_result :: "world \<Rightarrow> string \<Rightarrow> bool option" where
  "stub_result w package = snd (has_types_stub_package w package s0)"

definition stub_logged :: "world \<Rightarrow> string \<Rightarrow> log_record list" where
  "stub_logged w package = logged (fst (has_types_stub_package w package s0))"

text \<open>The rows of the output table; none when the file does not exist.\<close>

definition rows_of :: "row list option \<Rightarrow> row list" where
  "rows_of f = (case f of None \<Rightarrow> [] | Some rows \<Rightarrow> rows)"

text \<open>The requests a task issues and the rows it writes.\<close>

definition task_requests :: "world \<Rightarrow> string \<Rightarrow> (string \<times> string) list" where
  "task_requests w pkg = requests (fst (process_package w pkg 0 0 s0))"

definition task_rows :: "world \<Rightarrow> string \<Rightarrow> row list" where
  "task_rows w pkg = rows_of (output_file (fst (process_package w pkg 0 0 s0)))"

text \<open>The table after some rows were appended; writing nothing does not create the file.\<close>

definition add_rows :: "row list \<Rightarrow> row list option \<Rightarrow> row list option" where
  "add_rows rows f = (if rows = [] then f else Some (rows_of f @ rows))"

section \<open>Example inputs\<close>

text \<open>Release descriptors, index answers and worlds used in the examples.\<close>

definition sdist_release :: release_dict where
  "sdist_release = [''packagetype'' \<mapsto> ''sdist'', ''url'' \<mapsto> ''https://files/pkg-1.0.tar.gz'',
                    ''filename'' \<mapsto> ''pkg-1.0.tar.gz'']"

definition wheel_release :: release_dict where
  "wheel_release = [''packagetype'' \<mapsto> ''bdist_wheel'', ''url'' \<mapsto> ''https://files/pkg-1.0-py3-none-any.whl'',
                    ''filename'' \<mapsto> ''pkg-1.0-py3-none-any.whl'']"

definition egg_release :: release_dict where
  "egg_release = [''packagetype'' \<mapsto> ''bdist_egg'', ''url'' \<mapsto> ''https://files/pkg-1.0-py3.egg'',
                  ''filename'' \<mapsto> ''pkg-1.0-py3.egg'']"

definition meta_response :: "release_dict list \<Rightarrow> response" where
  "meta_response rs =
     \<lparr>status = 200,
      json_body = Inr \<lparr>releases = Some [''1.0'' \<mapsto> rs], info = Some [''version'' \<mapsto> ''1.0'']\<rparr>,
      content = Inr ''PK''\<rparr>"

definition untyped_infolist :: "zip_info list" where
  "untyped_infolist = [\<lparr>filename = ''pkg/mod.py'', file_size = 12, is_dir = False\<rparr>]"

text \<open>
  A world that answers every request with the same response and reads every archive as
  the covered example archive.
\<close>

definition const_world :: "response \<Rightarrow> world" where
  "const_world resp =
     \<lparr>http_get = (\<lambda>u. Inr resp),
      quote = (\<lambda>x. x),
      open_zip = (\<lambda>b. Inr covered_infolist),
      open_tar = (\<lambda>b. Inr covered_members),
      input_file = [''pkg'']\<rparr>"

text \<open>
  A world where package \<open>pkg\<close> has one wheel without a marker file, and the request for its
  stub distribution gets the given answer.
\<close>

definition stub_world :: "error + response \<Rightarrow> world" where
  "stub_world stub_resp =
     \<lparr>http_get = (\<lambda>u. if u = ''https://pypi.org/pypi/types-pkg/json'' then stub_resp
                        else Inr (meta_response [wheel_release])),
      quote = (\<lambda>x. x),
      open_zip = (\<lambda>b. Inr untyped_infolist),
      open_tar = (\<lambda>b. Inl ReadError),
      input_file = [''pkg'']\<rparr>"

definition not_found :: response where
  "not_found = \<lparr>status = 404, json_body = Inl ContentTypeError, content = Inr []\<rparr>"

definition wheel_download :: PypiReleaseDownload where
  "wheel_download = \<lparr>distribution = ''pkg'', url = ''https://files/pkg-1.0-py3-none-any.whl'',
                      packagetype = ''bdist_wheel'', release_filename = ''pkg-1.0-py3-none-any.whl''\<rparr>"

definition sdist_tar_download :: PypiReleaseDownload where
  "sdist_tar_download = \<lparr>distribution = ''pkg'', url = ''https://files/pkg-1.0.tar.gz'',
                          packagetype = ''sdist'', release_filename = ''pkg-1.0.tar.gz''\<rparr>"

definition sdist_zip_download :: PypiReleaseDownload where
  "sdist_zip_download = \<lparr>distribution = ''pkg'', url = ''https://files/pkg-1.0.zip'',
                          packagetype = ''sdist'', release_filename = ''pkg-1.0.zip''\<rparr>"

definition sdist_tar_bz2_download :: PypiReleaseDownload where
  "sdist_tar_bz2_download = \<lparr>distribution = ''pkg'', url = ''https://files/pkg-1.0.tar.bz2'',
                          packagetype = ''sdist'', release_filename = ''pkg-1.0.tar.bz2''\<rparr>"

definition done_state :: state where
  "done_state = \<lparr>requests = [], logged = [], output_file = Some [(''pkg'', True, None)]\<rparr>"

definition server_error :: response where
  "server_error = \<lparr>status = 500, json_body = Inl ContentTypeError, content = Inr []\<rparr>"

definition broken_download :: response where
  "broken_download = (meta_response [wheel_release])\<lparr>content := Inl ClientError\<rparr>"

definition duplicate_names :: world where
  "duplicate_names = (const_world (meta_response [wheel_release]))\<lparr>input_file := [''a'', ''a'']\<rparr>"

text \<open>Twenty-five package names, and tables for the detection script.\<close>

definition names25 :: "string list" where
  "names25 = [''zope'', ''yarl'', ''xarray'', ''wheel'', ''vcrpy'', ''urllib3'', ''tqdm'', ''six'',
              ''rich'', ''qtpy'', ''pytz'', ''orjson'', ''numpy'', ''mypy'', ''lxml'', ''kombu'',
              ''jinja2'', ''idna'', ''httpx'', ''grpcio'', ''flask'', ''ecdsa'', ''django'', ''click'',
              ''boto3'']"

definition remote_abc :: "csv_row list" where
  "remote_abc = [ [''project'' \<mapsto> ''a''], [''project'' \<mapsto> ''b''], [''project'' \<mapsto> ''pyairports'']]"

definition local_a :: "csv_row list" where
  "local_a = [ [''package'' \<mapsto> ''a'', ''has_py_typed'' \<mapsto> ''True'', ''has_types_package'' \<mapsto> []]]"

definition local_ab :: "csv_row list" where
  "local_ab = [ [''package'' \<mapsto> ''a''], [''package'' \<mapsto> ''b'']]"

definition detect_abc :: "csv_row list \<Rightarrow> detect_world" where
  "detect_abc local_rows =
     \<lparr>remote_csv = Inr remote_abc, local_csv = Inr local_rows,
      gh_issue_list = (\<lambda>t. Inr []), gh_run = (\<lambda>cmd. Inr ())\<rparr>"

section \<open>Properties of the typed-coverage evaluator\<close>

lemma py_typed_not_source: "path_name p = ''py.typed'' \<Longrightarrow> path_suffix p \<notin> py_file_suffixes"
  by (simp add: path_suffix_def py_file_suffixes_def)

lemma foldl_classify:
  "foldl classify (ds, fs) ps =
     (ds @ map path_parent (filter (\<lambda>p. path_name p = ''py.typed'') ps),
      fs @ filter (\<lambda>p. path_suffix p \<in> py_file_suffixes) ps)"
proof (induction ps arbitrary: ds fs)
  case Nil
  show ?case by simp
next
  case (Cons p ps)
  show ?case
    using py_typed_not_source [of p] by (simp add: Cons.IH)
qed

lemma scan_eq:
  "scan ps = (map path_parent (filter (\<lambda>p. path_name p = ''py.typed'') ps),
              filter (\<lambda>p. path_suffix p \<in> py_file_suffixes) ps)"
  by (simp add: scan_def foldl_classify)

lemma strict_prefix_take: "strict_prefix xs ys \<longleftrightarrow> (\<exists>k < length ys. xs = take k ys)"
proof
  assume "strict_prefix xs ys"
  then obtain zs where "ys = xs @ zs" "zs \<noteq> []"
    by (auto simp: strict_prefix_def prefix_def)
  then have "length xs < length ys" "xs = take (length xs) ys" by auto
  then show "\<exists>k < length ys. xs = take k ys" by blast
next
  assume "\<exists>k < length ys. xs = take k ys"
  then obtain k where k: "k < length ys" "xs = take k ys" by blast
  then have "prefix xs ys" by (simp add: take_is_prefix)
  moreover from k have "length xs < length ys" by simp
  ultimately show "strict_prefix xs ys" by (auto simp: strict_prefix_def)
qed

lemma mem_path_parents: "d \<in> set (path_parents p) \<longleftrightarrow> is_ancestor d p"
proof
  assume "d \<in> set (path_parents p)"
  then obtain i where i: "i < length (tail p)" "d = p\<lparr>tail := take (length (tail p) - i - 1) (tail p)\<rparr>"
    by (auto simp: path_parents_def)
  then have "root d = root p" "tail d = take (length (tail p) - i - 1) (tail p)" by simp_all
  moreover from i have "length (tail p) - i - 1 < length (tail p)" by simp
  ultimately show "is_ancestor d p"
    unfolding is_ancestor_def strict_prefix_take by blast
next
  assume "is_ancestor d p"
  then obtain k where k: "root d = root p" "k < length (tail p)" "tail d = take k (tail p)"
    unfolding is_ancestor_def strict_prefix_take by blast
  define i where "i = length (tail p) - k - 1"
  from k have "i < length (tail p)" "length (tail p) - i - 1 = k" by (simp_all add: i_def)
  moreover from k have "d = p\<lparr>tail := take k (tail p)\<rparr>" by simp
  ultimately have "d = (\<lambda>i. p\<lparr>tail := take (length (tail p) - i - 1) (tail p)\<rparr>) i \<and> i \<in> set [0..<length (tail p)]"
    by simp
  then show "d \<in> set (path_parents p)"
    unfolding path_parents_def set_map by blast
qed

lemma all_covered_iff:
  "all_covered ds fs \<longleftrightarrow> (\<forall>p \<in> set fs. \<exists>d \<in> set ds. is_ancestor d p)"
  by (induction fs) (auto simp: list_ex_iff mem_path_parents)

lemma path_iter_entries:
  "path_iter src = map fst (filter (\<lambda>e. \<not> placeholder_init e) (file_entries src))"
  by (cases src) (simp_all add: filter_map o_def placeholder_init_def tar_path_def conj_commute)

lemma py_typed_dirs_eq: "py_typed_dirs src = marker_dirs src"
proof -
  have "filter (\<lambda>e. \<not> placeholder_init e \<and> path_name (fst e) = ''py.typed'') es
        = filter (\<lambda>e. path_name (fst e) = ''py.typed'') es" for es :: "(pure_path \<times> nat) list"
    by (rule filter_cong) (auto simp: placeholder_init_def)
  then show ?thesis
    by (simp add: py_typed_dirs_def scan_eq path_iter_entries marker_dirs_def filter_map o_def)
qed

lemma all_python_files_eq: "all_python_files src = source_files src"
  by (simp add: all_python_files_def scan_eq path_iter_entries source_files_def filter_map o_def
      py_file_suffixes_def)

lemma evaluator_unfold:
  "all_py_files_in_source_are_in_py_typed_dirs src \<longleftrightarrow>
     py_typed_dirs src \<noteq> [] \<and> all_python_files src \<noteq> []
     \<and> all_covered (py_typed_dirs src) (all_python_files src)"
  by (auto simp: all_py_files_in_source_are_in_py_typed_dirs_def py_typed_dirs_def
      all_python_files_def split: prod.splits)

lemma evaluator_char:
  "all_py_files_in_source_are_in_py_typed_dirs src \<longleftrightarrow>
     marker_dirs src \<noteq> [] \<and> source_files src \<noteq> []
     \<and> (\<forall>p \<in> set (source_files src). \<exists>d \<in> set (marker_dirs src). is_ancestor d p)"
  by (simp add: evaluator_unfold py_typed_dirs_eq all_python_files_eq all_covered_iff)

lemma init_py_suffix: "path_name p = ''__init__.py'' \<Longrightarrow> path_suffix p = ''.py''"
  by (simp add: path_suffix_def)

lemma init_pyi_suffix: "path_name p = ''__init__.pyi'' \<Longrightarrow> path_suffix p = ''.pyi''"
  by (simp add: path_suffix_def)

lemma file_entries_insert_file:
  "\<exists>es1 es2. file_entries src = es1 @ es2
      \<and> file_entries (insert_file i n k src) = es1 @ (Path n, k) # es2"
proof (cases src)
  case (ZipFile infolist)
  have "file_entries (ZipFile infolist)
        = file_entries (ZipFile (take i infolist)) @ file_entries (ZipFile (drop i infolist))"
    unfolding file_entries.simps by (simp flip: map_append filter_append)
  then show ?thesis using ZipFile by auto
next
  case (TarFile members)
  have "file_entries (TarFile members)
        = file_entries (TarFile (take i members)) @ file_entries (TarFile (drop i members))"
    unfolding file_entries.simps by (simp flip: map_append filter_append)
  then show ?thesis using TarFile by auto
qed

lemma marker_dirs_insert_file:
  "path_name (Path n) \<noteq> ''py.typed'' \<Longrightarrow> marker_dirs (insert_file i n k src) = marker_dirs src"
  using file_entries_insert_file [of src i n k] by (auto simp: marker_dirs_def)

lemma source_files_insert_file:
  "mset (source_files (insert_file i n k src)) =
     mset (source_files src)
     + (if \<not> placeholder_init (Path n, k) \<and> (path_suffix (Path n) = ''.py'' \<or> path_suffix (Path n) = ''.pyi'')
        then {#Path n#} else {#})"
  using file_entries_insert_file [of src i n k] by (auto simp: source_files_def)

lemma source_files_insert_placeholder:
  assumes "path_name (Path n) = ''__init__.py''"
  shows "source_files (insert_file i n 0 src) = source_files src"
  using file_entries_insert_file [of src i n 0] assms
  by (auto simp: source_files_def placeholder_init_def)

lemma evaluator_uncovered:
  assumes "p \<in> set (source_files src)"
      and "\<forall>d \<in> set (marker_dirs src). \<not> is_ancestor d p"
  shows "\<not> all_py_files_in_source_are_in_py_typed_dirs src"
  using assms unfolding evaluator_char by blast

lemmas path_eval = Path_def splitroot_def path_name_def path_suffix_def path_parent_def

lemma example_zip_marker_dirs: "marker_dirs example_zip = [\<lparr>root = [], tail = [''pkg'']\<rparr>]"
  by (simp add: example_zip_def marker_dirs_def Path_def splitroot_def path_name_def path_parent_def)

lemma example_zip_source_files:
  "source_files example_zip =
     [\<lparr>root = [], tail = [''pkg'', ''sub'', ''mod.py'']\<rparr>,
      \<lparr>root = [], tail = [''pkg'', ''sub'', ''mod.pyi'']\<rparr>]"
  by (simp add: example_zip_def source_files_def placeholder_init_def Path_def splitroot_def path_name_def path_suffix_def)

lemma covered_zip_typed: "all_py_files_in_source_are_in_py_typed_dirs covered_zip"
  by (simp add: evaluator_char covered_zip_def covered_infolist_def marker_dirs_def source_files_def
      placeholder_init_def is_ancestor_def path_eval)

lemma covered_tar_typed: "all_py_files_in_source_are_in_py_typed_dirs covered_tar"
  by (simp add: evaluator_char covered_tar_def covered_members_def marker_dirs_def source_files_def
      placeholder_init_def is_ancestor_def path_eval)

text \<open>
  Claim C1. For a zip or a tar archive, the evaluator returns true exactly when the set of
  marker directories (the parents of the regular files named \<open>py.typed\<close>) is not empty,
  the list of source files (suffix \<open>.py\<close> or \<open>.pyi\<close>, zero-size \<open>__init__.py\<close> left
  out) is not empty, and every source file has a marker directory among its ancestors,
  the direct parent included. So one source file without such an ancestor makes the
  result false.
\<close>

theorem typed_coverage_iff:
  "all_py_files_in_source_are_in_py_typed_dirs src \<longleftrightarrow>
     set (marker_dirs src) \<noteq> {} \<and> source_files src \<noteq> []
     \<and> (\<forall>p \<in> set (source_files src). \<exists>d \<in> set (marker_dirs src). is_ancestor d p)"
  using evaluator_char [of src] by simp

theorem typed_coverage_iff_witness:
  "all_py_files_in_source_are_in_py_typed_dirs example_zip"
  unfolding typed_coverage_iff example_zip_marker_dirs example_zip_source_files by (simp add: is_ancestor_def)


text \<open>
  Claim C2. A regular file named \<open>__init__.py\<close> is left out of the list of source files
  exactly when its size is zero. Adding a zero-size one anywhere in an archive leaves the
  evaluator's result as it was (true stays true), wherever the file lies; adding one of
  nonzero size that no marker directory of the archive covers makes the result false.
\<close>

theorem placeholder_init_exclusion:
  assumes "path_name (Path n) = ''__init__.py''"
  shows "mset (all_python_files (insert_file i n k src))
           = mset (all_python_files src) + (if k = 0 then {#} else {#Path n#})
       \<and> all_py_files_in_source_are_in_py_typed_dirs (insert_file i n 0 src)
           = all_py_files_in_source_are_in_py_typed_dirs src
       \<and> (k \<noteq> 0 \<and> (\<forall>d \<in> set (marker_dirs (insert_file i n k src)). \<not> is_ancestor d (Path n))
            \<longrightarrow> \<not> all_py_files_in_source_are_in_py_typed_dirs (insert_file i n k src))"
proof (intro conjI impI)
  show "mset (all_python_files (insert_file i n k src))
           = mset (all_python_files src) + (if k = 0 then {#} else {#Path n#})"
    using assms
    by (simp add: all_python_files_eq source_files_insert_file placeholder_init_def init_py_suffix)
next
  from assms have "marker_dirs (insert_file i n 0 src) = marker_dirs src"
    by (simp add: marker_dirs_insert_file)
  then show "all_py_files_in_source_are_in_py_typed_dirs (insert_file i n 0 src)
           = all_py_files_in_source_are_in_py_typed_dirs src"
    by (simp add: evaluator_char source_files_insert_placeholder [OF assms])
next
  assume a: "k \<noteq> 0 \<and> (\<forall>d \<in> set (marker_dirs (insert_file i n k src)). \<not> is_ancestor d (Path n))"
  with assms have "Path n \<in># mset (source_files (insert_file i n k src))"
    unfolding source_files_insert_file by (simp add: placeholder_init_def init_py_suffix)
  then have "Path n \<in> set (source_files (insert_file i n k src))" by simp
  with a show "\<not> all_py_files_in_source_are_in_py_typed_dirs (insert_file i n k src)"
    using evaluator_uncovered [of "Path n" "insert_file i n k src"] by blast
qed

theorem placeholder_init_exclusion_witness:
  "all_py_files_in_source_are_in_py_typed_dirs (insert_file 1 ''tests/__init__.py'' 0 covered_zip)
   \<and> all_py_files_in_source_are_in_py_typed_dirs (insert_file 2 ''pkg-1.0/tests/__init__.py'' 0 covered_tar)
   \<and> \<not> all_py_files_in_source_are_in_py_typed_dirs (insert_file 1 ''tests/__init__.py'' 5 covered_zip)
   \<and> \<not> all_py_files_in_source_are_in_py_typed_dirs (insert_file 2 ''pkg-1.0/tests/__init__.py'' 5 covered_tar)"
proof -
  have n1: "path_name (Path ''tests/__init__.py'') = ''__init__.py''"
    by (simp add: path_eval)
  have n2: "path_name (Path ''pkg-1.0/tests/__init__.py'') = ''__init__.py''"
    by (simp add: path_eval)
  have u1: "\<forall>d \<in> set (marker_dirs (insert_file 1 ''tests/__init__.py'' 5 covered_zip)).
              \<not> is_ancestor d (Path ''tests/__init__.py'')"
    by (simp add: covered_zip_def covered_infolist_def marker_dirs_def is_ancestor_def path_eval)
  have u2: "\<forall>d \<in> set (marker_dirs (insert_file 2 ''pkg-1.0/tests/__init__.py'' 5 covered_tar)).
              \<not> is_ancestor d (Path ''pkg-1.0/tests/__init__.py'')"
    by (simp add: covered_tar_def covered_members_def marker_dirs_def is_ancestor_def path_eval)
  show ?thesis
    using placeholder_init_exclusion [OF n1, of 1 0 covered_zip]
      placeholder_init_exclusion [OF n2, of 2 0 covered_tar]
      placeholder_init_exclusion [OF n1, of 1 5 covered_zip]
      placeholder_init_exclusion [OF n2, of 2 5 covered_tar]
      u1 u2 covered_zip_typed covered_tar_typed
    by simp
qed

text \<open>
  Claim C10. Only the name \<open>__init__.py\<close> is exempt. A regular file added to an archive
  enters the list of source files exactly when its suffix is \<open>.py\<close> or \<open>.pyi\<close> and it is
  not a zero-size file named \<open>__init__.py\<close>; so a source file of any other name counts
  whatever its size, and when no marker directory of the archive is among its ancestors
  the evaluator returns false. In particular a zero-size file named \<open>__init__.pyi\<close> is a
  source file and, uncovered, makes the evaluator return false, whatever else the archive
  holds.
\<close>

theorem empty_init_pyi_is_source:
  "mset (all_python_files (insert_file i n k src)) =
     mset (all_python_files src)
     + (if path_suffix (Path n) \<in> py_file_suffixes
           \<and> \<not> (path_name (Path n) = ''__init__.py'' \<and> k = 0)
        then {#Path n#} else {#})
   \<and> (path_name (Path n) \<noteq> ''__init__.py'' \<and> path_suffix (Path n) \<in> py_file_suffixes
        \<and> (\<forall>d \<in> set (marker_dirs (insert_file i n k src)). \<not> is_ancestor d (Path n)) \<longrightarrow>
      \<not> all_py_files_in_source_are_in_py_typed_dirs (insert_file i n k src))
   \<and> (path_name (Path n) = ''__init__.pyi'' \<longrightarrow>
        Path n \<in> set (all_python_files (insert_file i n 0 src))
      \<and> ((\<forall>d \<in> set (marker_dirs (insert_file i n 0 src)). \<not> is_ancestor d (Path n)) \<longrightarrow>
         \<not> all_py_files_in_source_are_in_py_typed_dirs (insert_file i n 0 src)))"
proof (intro conjI impI)
  show m: "mset (all_python_files (insert_file i n k src)) =
     mset (all_python_files src)
     + (if path_suffix (Path n) \<in> py_file_suffixes
           \<and> \<not> (path_name (Path n) = ''__init__.py'' \<and> k = 0)
        then {#Path n#} else {#})" for k
    by (simp add: all_python_files_eq source_files_insert_file placeholder_init_def
        py_file_suffixes_def)
  {
    assume a: "path_name (Path n) \<noteq> ''__init__.py'' \<and> path_suffix (Path n) \<in> py_file_suffixes
        \<and> (\<forall>d \<in> set (marker_dirs (insert_file i n k src)). \<not> is_ancestor d (Path n))"
    then have "Path n \<in># mset (all_python_files (insert_file i n k src))"
      unfolding m by simp
    then have "Path n \<in> set (source_files (insert_file i n k src))"
      by (simp add: all_python_files_eq)
    with a show "\<not> all_py_files_in_source_are_in_py_typed_dirs (insert_file i n k src)"
      using evaluator_uncovered [of "Path n" "insert_file i n k src"] by blast
  }
  {
    assume b: "path_name (Path n) = ''__init__.pyi''"
    then have "path_suffix (Path n) \<in> py_file_suffixes"
      by (simp add: init_pyi_suffix py_file_suffixes_def)
    with b have "Path n \<in># mset (all_python_files (insert_file i n 0 src))"
      unfolding m by simp
    then show s: "Path n \<in> set (all_python_files (insert_file i n 0 src))" by simp
    assume "\<forall>d \<in> set (marker_dirs (insert_file i n 0 src)). \<not> is_ancestor d (Path n)"
    with s show "\<not> all_py_files_in_source_are_in_py_typed_dirs (insert_file i n 0 src)"
      using evaluator_uncovered [of "Path n" "insert_file i n 0 src"]
      by (simp add: all_python_files_eq)
  }
qed

theorem empty_init_pyi_is_source_witness:
  "Path ''tests/__init__.pyi'' \<in> set (all_python_files (insert_file 0 ''tests/__init__.pyi'' 0 covered_zip))
   \<and> \<not> all_py_files_in_source_are_in_py_typed_dirs (insert_file 0 ''tests/__init__.pyi'' 0 covered_zip)
   \<and> \<not> all_py_files_in_source_are_in_py_typed_dirs (insert_file 5 ''__init__.pyi'' 0 covered_tar)
   \<and> \<not> all_py_files_in_source_are_in_py_typed_dirs (insert_file 1 ''tests/conftest.py'' 0 covered_zip)
   \<and> mset (all_python_files (insert_file 1 ''tests/__init__.py'' 0 covered_zip))
       = mset (all_python_files covered_zip)"
proof -
  have n1: "path_name (Path ''tests/__init__.pyi'') = ''__init__.pyi''"
    and n2: "path_name (Path ''__init__.pyi'') = ''__init__.pyi''"
    and n3: "path_name (Path ''tests/conftest.py'') \<noteq> ''__init__.py''"
    and s3: "path_suffix (Path ''tests/conftest.py'') \<in> py_file_suffixes"
    and n4: "path_name (Path ''tests/__init__.py'') = ''__init__.py''"
    by (simp_all add: path_eval py_file_suffixes_def)
  have u1: "\<forall>d \<in> set (marker_dirs (insert_file 0 ''tests/__init__.pyi'' 0 covered_zip)).
              \<not> is_ancestor d (Path ''tests/__init__.pyi'')"
    by (simp add: covered_zip_def covered_infolist_def marker_dirs_def is_ancestor_def path_eval)
  have u2: "\<forall>d \<in> set (marker_dirs (insert_file 5 ''__init__.pyi'' 0 covered_tar)).
              \<not> is_ancestor d (Path ''__init__.pyi'')"
    by (simp add: covered_tar_def covered_members_def marker_dirs_def is_ancestor_def path_eval)
  have u3: "\<forall>d \<in> set (marker_dirs (insert_file 1 ''tests/conftest.py'' 0 covered_zip)).
              \<not> is_ancestor d (Path ''tests/conftest.py'')"
    by (simp add: covered_zip_def covered_infolist_def marker_dirs_def is_ancestor_def path_eval)
  show ?thesis
    using empty_init_pyi_is_source [of 0 "''tests/__init__.pyi''" 0 covered_zip]
      empty_init_pyi_is_source [of 5 "''__init__.pyi''" 0 covered_tar]
      empty_init_pyi_is_source [of 1 "''tests/conftest.py''" 0 covered_zip]
      empty_init_pyi_is_source [of 1 "''tests/__init__.py''" 0 covered_zip]
      n1 n2 n3 s3 n4 u1 u2 u3
    by simp
qed

section \<open>Properties of the classifier and its orchestration\<close>

subsection \<open>Sorting by a boolean key\<close>

lemma insort_key_bool_true:
  fixes f :: "'a \<Rightarrow> bool"
  assumes "f x" "\<forall>y \<in> set ys. \<not> f y"
  shows "insort_key f x (ys @ zs) = ys @ insort_key f x zs"
  using assms by (induction ys) auto

lemma insort_key_bool_head:
  fixes f :: "'a \<Rightarrow> bool"
  assumes "\<forall>z \<in> set zs. f z"
  shows "insort_key f x zs = x # zs"
  using assms by (cases zs) auto

lemma sort_key_bool:
  fixes f :: "'a \<Rightarrow> bool"
  shows "sort_key f xs = filter (\<lambda>x. \<not> f x) xs @ filter f xs"
proof (induction xs)
  case Nil
  show ?case by simp
next
  case (Cons x xs)
  show ?case
  proof (cases "f x")
    case True
    then show ?thesis
      using Cons.IH by (simp add: insort_key_bool_true insort_key_bool_head)
  next
    case False
    have "insort_key f x ys = x # ys" for ys
      using False by (cases ys) auto
    then show ?thesis using Cons.IH False by simp
  qed
qed

lemma select_release_eq:
  assumes "rs \<noteq> []" and "\<forall>x \<in> set rs. x ''packagetype'' \<noteq> None"
  shows "select_release rs =
           Inr (if \<exists>x \<in> set rs. is_wheel x then last (filter is_wheel rs) else last rs)"
proof -
  have ne: "sort_key is_wheel rs \<noteq> []"
    using assms(1) by (metis length_0_conv length_sort)
  have nk: "\<not> list_ex (\<lambda>x. x ''packagetype'' = None) rs"
    using assms(2) by (simp add: list_ex_iff)
  have "last (sort_key is_wheel rs) =
          (if \<exists>x \<in> set rs. is_wheel x then last (filter is_wheel rs) else last rs)"
  proof (cases "\<exists>x \<in> set rs. is_wheel x")
    case True
    then have "filter is_wheel rs \<noteq> []" by (simp add: filter_empty_conv)
    then show ?thesis using True by (simp add: sort_key_bool)
  next
    case False
    then have "filter is_wheel rs = []" "filter (\<lambda>x. \<not> is_wheel x) rs = rs"
      by (simp_all add: filter_empty_conv)
    then show ?thesis using False by (simp add: sort_key_bool)
  qed
  moreover have "select_release rs = Inr (last (sort_key is_wheel rs))"
  proof (cases "sort_key is_wheel rs")
    case Nil
    with ne show ?thesis by simp
  next
    case (Cons y ys)
    with nk show ?thesis by (simp add: select_release_def)
  qed
  ultimately show ?thesis by simp
qed

subsection \<open>Each step as a function of the world\<close>

lemma fetch_eq:
  "fetch_latest_pypi_release w package s =
     (s\<lparr>requests := requests s @ [(package, PYPI_JSON_URL (quote w package))]\<rparr>,
      fetch_result w package)"
  by (simp add: fetch_result_def fetch_latest_pypi_release_def session_get_def
      split: sum.splits)

lemma fetch_result_eq:
  "fetch_result w package =
     (case http_get w (PYPI_JSON_URL (quote w package)) of
        Inl e \<Rightarrow> Inl e
      | Inr resp \<Rightarrow>
          if 400 \<le> status resp then Inl (ClientResponseError (status resp))
          else (case json_body resp of Inl e \<Rightarrow> Inl e | Inr j \<Rightarrow> parse_release package j))"
  by (simp add: fetch_result_def fetch_latest_pypi_release_def session_get_def split: sum.splits)

lemma fetch_result_distribution:
  "fetch_result w package = Inr r \<Longrightarrow> distribution r = package"
  by (auto simp: fetch_result_def fetch_latest_pypi_release_def session_get_def parse_release_def
      split: sum.splits option.splits if_splits)

lemma parse_release_selected:
  assumes "releases j = Some rels" and "info j = Some info_dict"
      and "info_dict ''version'' = Some version" and "rels version = Some rs"
      and "select_release rs = Inr x"
      and "x ''url'' = Some u" and "x ''packagetype'' = Some pt" and "x ''filename'' = Some fn"
  shows "parse_release package j =
           Inr \<lparr>distribution = package, url = u, packagetype = pt, release_filename = fn\<rparr>"
  using assms by (simp add: parse_release_def getitem_def)

lemma release_eq:
  "release_contains_py_typed w r s =
     (s\<lparr>requests := requests s @ [(distribution r, url r)]\<rparr>, download_result w r)"
  by (simp add: download_result_def release_contains_py_typed_def session_get_def
      split: sum.splits)

lemma download_result_eq:
  "download_result w r =
     (case http_get w (url r) of
        Inl e \<Rightarrow> Inl e
      | Inr resp \<Rightarrow> (case content resp of Inl e \<Rightarrow> Inl e | Inr body \<Rightarrow> scan_body w r body))"
  by (simp add: download_result_def release_contains_py_typed_def session_get_def
      split: sum.splits)

lemma is_typed_eq:
  "is_typed_package w package s =
     (s\<lparr>requests := requests s @ typed_requests w package\<rparr>, typed_result w package)"
  by (simp add: typed_requests_def typed_result_def is_typed_package_def fetch_eq release_eq s0_def
      split: sum.splits)

lemma typed_requests_tag: "q \<in> set (typed_requests w package) \<Longrightarrow> fst q = package"
  by (auto simp: typed_requests_def is_typed_package_def fetch_eq release_eq s0_def
      dest: fetch_result_distribution split: sum.splits)

lemma stub_eq:
  "has_types_stub_package w package s =
     (s\<lparr>requests := requests s @ [(package, PYPI_JSON_URL (quote w (''types-'' @ package)))],
        logged := logged s @ stub_logged w package\<rparr>,
      stub_result w package)"
  by (simp add: stub_result_def stub_logged_def has_types_stub_package_def session_get_def s0_def
      Let_def split: sum.splits)

lemma stub_result_eq:
  "stub_result w package =
     (case http_get w (PYPI_JSON_URL (quote w (''types-'' @ package))) of
        Inl e \<Rightarrow> None
      | Inr resp \<Rightarrow> if status resp = 200 then Some True
                    else if status resp = 404 then Some False else None)"
  by (simp add: stub_result_def has_types_stub_package_def session_get_def Let_def
      split: sum.splits)

lemma process_package_eq:
  "process_package w pkg i tot s =
     (case typed_result w pkg of
        Inl e \<Rightarrow>
          (s\<lparr>requests := requests s @ typed_requests w pkg,
             logged := logged s @ [ErrorProcessing i tot pkg e]\<rparr>, Inr ())
      | Inr True \<Rightarrow>
          (s\<lparr>requests := requests s @ typed_requests w pkg,
             logged := logged s @ [Result i tot pkg True None],
             output_file := Some (rows_of (output_file s) @ [(pkg, True, None)])\<rparr>, Inr ())
      | Inr False \<Rightarrow>
          (s\<lparr>requests := requests s @ typed_requests w pkg
                          @ [(pkg, PYPI_JSON_URL (quote w (''types-'' @ pkg)))],
             logged := logged s @ stub_logged w pkg @ [Result i tot pkg False (stub_result w pkg)],
             output_file := Some (rows_of (output_file s) @ [(pkg, False, stub_result w pkg)])\<rparr>,
           Inr ()))"
  by (simp add: process_package_def is_typed_eq stub_eq append_result_to_csv_def rows_of_def
      split: sum.splits option.splits bool.splits)

lemma rows_of_add_rows [simp]: "rows_of (add_rows rows f) = rows_of f @ rows"
  by (simp add: add_rows_def rows_of_def)

lemma add_rows_add_rows [simp]: "add_rows rs2 (add_rows rs1 f) = add_rows (rs1 @ rs2) f"
  by (simp add: add_rows_def rows_of_def)

lemma add_rows_Nil [simp]: "add_rows [] f = f"
  by (simp add: add_rows_def)

lemma process_package_result: "snd (process_package w pkg i tot s) = Inr ()"
  by (simp add: process_package_eq split: sum.splits bool.splits)

lemma process_package_requests:
  "requests (fst (process_package w pkg i tot s)) = requests s @ task_requests w pkg"
  by (simp add: task_requests_def process_package_eq s0_def split: sum.splits bool.splits)

lemma process_package_output:
  "output_file (fst (process_package w pkg i tot s)) = add_rows (task_rows w pkg) (output_file s)"
  by (simp add: task_rows_def process_package_eq s0_def add_rows_def rows_of_def
      split: sum.splits bool.splits)

lemma task_requests_tag: "q \<in> set (task_requests w pkg) \<Longrightarrow> fst q = pkg"
  by (auto simp: task_requests_def process_package_eq s0_def
      dest: typed_requests_tag split: sum.splits bool.splits)

lemma task_rows_cases: "task_rows w pkg = [] \<or> (\<exists>t u. task_rows w pkg = [(pkg, t, u)])"
  by (auto simp: task_rows_def process_package_eq s0_def rows_of_def split: sum.splits bool.splits)

lemma task_rows_failed: "typed_result w pkg = Inl e \<Longrightarrow> task_rows w pkg = []"
  by (simp add: task_rows_def process_package_eq s0_def rows_of_def)

subsection \<open>The batch\<close>

lemma gather_result: "snd (gather w tasks s) = Inr ()"
proof (induction tasks arbitrary: s)
  case Nil
  show ?case by simp
next
  case (Cons t tasks)
  obtain pkg i tot where t: "t = (pkg, i, tot)" by (cases t)
  obtain s' where p: "process_package w pkg i tot s = (s', Inr ())"
    using process_package_result [of w pkg i tot s] by (cases "process_package w pkg i tot s") auto
  show ?case using Cons.IH [of s'] by (simp add: t p)
qed

lemma gather_Cons:
  "gather w ((pkg, i, tot) # tasks) s = gather w tasks (fst (process_package w pkg i tot s))"
  using process_package_result [of w pkg i tot s]
  by (cases "process_package w pkg i tot s") auto

lemma gather_requests:
  "requests (fst (gather w tasks s)) = requests s @ concat (map (\<lambda>t. task_requests w (fst t)) tasks)"
proof (induction tasks arbitrary: s)
  case Nil
  show ?case by simp
next
  case (Cons t tasks)
  obtain pkg i tot where t: "t = (pkg, i, tot)" by (cases t)
  show ?case
    unfolding t gather_Cons Cons.IH by (simp add: process_package_requests)
qed

lemma gather_output:
  "output_file (fst (gather w tasks s)) =
     add_rows (concat (map (\<lambda>t. task_rows w (fst t)) tasks)) (output_file s)"
proof (induction tasks arbitrary: s)
  case Nil
  show ?case by simp
next
  case (Cons t tasks)
  obtain pkg i tot where t: "t = (pkg, i, tot)" by (cases t)
  show ?case
    unfolding t gather_Cons Cons.IH by (simp add: process_package_output)
qed

lemma schedule_eq:
  "\<exists>logs k'. schedule processed tot xs (s, tasks, k) =
     (s\<lparr>logged := logged s @ logs\<rparr>,
      tasks @ map (\<lambda>x. (snd x, fst x, tot)) (filter (\<lambda>x. snd x \<notin> processed) xs), k')"
proof (induction xs arbitrary: s tasks k)
  case Nil
  have "s = s\<lparr>logged := logged s @ []\<rparr>" by simp
  then show ?case by (metis append_Nil2 filter.simps(1) list.simps(8) schedule.simps(1))
next
  case (Cons x xs)
  obtain i pkg where x: "x = (i, pkg)" by (cases x)
  show ?case
  proof (cases "pkg \<in> processed")
    case True
    from Cons.IH [of "s\<lparr>logged := logged s @ [Skipping i tot pkg]\<rparr>" tasks "k + 1"]
    obtain logs k' where
      "schedule processed tot xs (s\<lparr>logged := logged s @ [Skipping i tot pkg]\<rparr>, tasks, k + 1) =
         (s\<lparr>logged := logged s @ [Skipping i tot pkg]\<rparr>
            \<lparr>logged := logged (s\<lparr>logged := logged s @ [Skipping i tot pkg]\<rparr>) @ logs\<rparr>,
          tasks @ map (\<lambda>x. (snd x, fst x, tot)) (filter (\<lambda>x. snd x \<notin> processed) xs), k')"
      by blast
    then have "schedule processed tot (x # xs) (s, tasks, k) =
         (s\<lparr>logged := logged s @ (Skipping i tot pkg # logs)\<rparr>,
          tasks @ map (\<lambda>x. (snd x, fst x, tot)) (filter (\<lambda>x. snd x \<notin> processed) (x # xs)), k')"
      using True by (simp add: x)
    then show ?thesis by blast
  next
    case False
    from Cons.IH [of s "tasks @ [(pkg, i, tot)]" k]
    show ?thesis using False by (simp add: x)
  qed
qed

lemma main_eq:
  "\<exists>s1 tasks.
      map fst tasks = filter (\<lambda>p. p \<notin> load_processed_packages s)
                        (get_package_names (input_file w) (Some 100))
    \<and> requests s1 = requests s \<and> output_file s1 = output_file s
    \<and> requests (fst (main w s)) = requests (fst (gather w tasks s1))
    \<and> output_file (fst (main w s)) = output_file (fst (gather w tasks s1))
    \<and> snd (main w s) = Inr ()"
proof -
  define packages where "packages = get_package_names (input_file w) (Some 100)"
  define processed where "processed = load_processed_packages s"
  define tasks where
    "tasks = map (\<lambda>x. (snd x, fst x, length packages))
               (filter (\<lambda>x. snd x \<notin> processed) (enumerate 1 packages))"
  obtain logs k' where sch:
    "schedule processed (length packages) (enumerate 1 packages) (s, [], 0) =
       (s\<lparr>logged := logged s @ logs\<rparr>, tasks, k')"
    using schedule_eq [of processed "length packages" "enumerate 1 packages" s "[]" 0]
    unfolding tasks_def by auto
  define s1 where "s1 = s\<lparr>logged := logged s @ logs\<rparr>"
  obtain s2 where g: "gather w tasks s1 = (s2, Inr ())"
    using gather_result [of w tasks s1] by (cases "gather w tasks s1") auto
  have m: "main w s = (s2\<lparr>logged := logged s2 @ [Finished (length packages - k') k']\<rparr>, Inr ())"
    using sch g
    by (simp add: main_def Let_def flip: packages_def processed_def s1_def)
  have "map fst tasks = map snd (filter (\<lambda>x. snd x \<notin> processed) (enumerate 1 packages))"
    by (simp add: tasks_def o_def)
  also have "\<dots> = filter (\<lambda>p. p \<notin> processed) (map snd (enumerate 1 packages))"
    by (simp only: filter_map o_def)
  finally have "map fst tasks = filter (\<lambda>p. p \<notin> processed) packages"
    by (simp only: map_snd_enumerate)
  moreover have "requests s1 = requests s" "output_file s1 = output_file s"
    by (simp_all add: s1_def)
  moreover have "requests (fst (main w s)) = requests (fst (gather w tasks s1))"
    "output_file (fst (main w s)) = output_file (fst (gather w tasks s1))"
    "snd (main w s) = Inr ()"
    by (simp_all add: m g)
  ultimately show ?thesis
    unfolding packages_def processed_def by blast
qed

lemma main_rows:
  "\<exists>pkgs rows. set pkgs \<subseteq> set (get_package_names (input_file w) (Some 100)) - load_processed_packages s
     \<and> (distinct (get_package_names (input_file w) (Some 100)) \<longrightarrow> distinct pkgs)
     \<and> map fst rows = pkgs
     \<and> output_file (fst (main w s)) = add_rows rows (output_file s)"
proof -
  obtain s1 tasks where t:
    "map fst tasks = filter (\<lambda>p. p \<notin> load_processed_packages s)
                        (get_package_names (input_file w) (Some 100))"
    "output_file s1 = output_file s"
    "output_file (fst (main w s)) = output_file (fst (gather w tasks s1))"
    using main_eq [of s w] by blast
  define rows where "rows = concat (map (\<lambda>t. task_rows w (fst t)) tasks)"
  have r: "map fst (concat (map (\<lambda>t. task_rows w (fst t)) ts))
             = filter (\<lambda>p. task_rows w p \<noteq> []) (map fst ts)" for ts :: "(string \<times> nat \<times> nat) list"
  proof (induction ts)
    case Nil
    show ?case by simp
  next
    case (Cons a ts)
    then show ?case using task_rows_cases [of w "fst a"] by auto
  qed
  have "map fst rows = filter (\<lambda>p. task_rows w p \<noteq> []) (map fst tasks)"
    unfolding rows_def by (rule r)
  then have mf: "map fst rows = filter (\<lambda>p. task_rows w p \<noteq> [])
       (filter (\<lambda>p. p \<notin> load_processed_packages s) (get_package_names (input_file w) (Some 100)))"
    by (simp only: t(1))
  have "set (map fst rows) \<subseteq> set (get_package_names (input_file w) (Some 100)) - load_processed_packages s"
    unfolding mf by auto
  moreover have "distinct (get_package_names (input_file w) (Some 100)) \<longrightarrow> distinct (map fst rows)"
    unfolding mf by simp
  moreover have "output_file (fst (main w s)) = add_rows rows (output_file s)"
    by (simp add: t(2,3) gather_output rows_def)
  ultimately show ?thesis by blast
qed

lemma main_requests:
  "\<exists>reqs. fst ` set reqs \<subseteq> set (get_package_names (input_file w) (Some 100)) - load_processed_packages s
     \<and> requests (fst (main w s)) = requests s @ reqs"
proof -
  obtain s1 tasks where t:
    "map fst tasks = filter (\<lambda>p. p \<notin> load_processed_packages s)
                        (get_package_names (input_file w) (Some 100))"
    "requests s1 = requests s"
    "requests (fst (main w s)) = requests (fst (gather w tasks s1))"
    using main_eq [of s w] by blast
  define reqs where "reqs = concat (map (\<lambda>t. task_requests w (fst t)) tasks)"
  have "fst q \<in> set (map fst tasks)" if "q \<in> set reqs" for q
    using that task_requests_tag unfolding reqs_def by fastforce
  then have "fst ` set reqs \<subseteq> set (get_package_names (input_file w) (Some 100)) - load_processed_packages s"
    unfolding t(1) by auto
  moreover have "requests (fst (main w s)) = requests s @ reqs"
    by (simp add: t(2,3) gather_requests reqs_def)
  ultimately show ?thesis by blast
qed

lemma load_processed_rows: "load_processed_packages s = fst ` set (rows_of (output_file s))"
  by (simp add: load_processed_packages_def rows_of_def split: option.splits)

subsection \<open>The example worlds\<close>

lemmas release_eval = sdist_release_def wheel_release_def egg_release_def meta_response_def
  const_world_def stub_world_def

lemma covered_infolist_typed: "all_py_files_in_source_are_in_py_typed_dirs (ZipFile covered_infolist)"
  by (simp add: evaluator_char covered_infolist_def marker_dirs_def source_files_def
      placeholder_init_def is_ancestor_def path_eval)

lemma covered_members_typed: "all_py_files_in_source_are_in_py_typed_dirs (TarFile covered_members)"
  by (simp add: evaluator_char covered_members_def marker_dirs_def source_files_def
      placeholder_init_def is_ancestor_def path_eval)

lemma untyped_infolist_untyped: "\<not> all_py_files_in_source_are_in_py_typed_dirs (ZipFile untyped_infolist)"
  by (simp add: evaluator_char untyped_infolist_def marker_dirs_def path_eval)

lemma const_world_get: "http_get (const_world resp) u = Inr resp"
  by (simp add: const_world_def)

lemma stub_world_untyped: "snd (is_typed_package (stub_world r) ''pkg'' s) = Inr False"
  by (simp add: is_typed_package_def fetch_latest_pypi_release_def session_get_def
      parse_release_def getitem_def select_release_def is_wheel_def release_eval
      release_contains_py_typed_def scan_body_def endswith_def PYPI_JSON_URL_def
      untyped_infolist_untyped)

lemma not_found_fails:
  "snd (is_typed_package (const_world not_found) ''pkg'' s0) = Inl (ClientResponseError 404)"
  by (simp add: is_typed_package_def fetch_latest_pypi_release_def session_get_def
      const_world_def not_found_def)

lemma broken_download_fails:
  "snd (is_typed_package (const_world broken_download) ''pkg'' s0) = Inl ClientError"
  by (simp add: is_typed_package_def fetch_latest_pypi_release_def session_get_def
      parse_release_def getitem_def select_release_def is_wheel_def release_eval
      release_contains_py_typed_def broken_download_def)

lemma egg_fails:
  "snd (is_typed_package (const_world (meta_response [egg_release])) ''pkg'' s0) = Inl AssertionError"
  by (simp add: is_typed_package_def fetch_latest_pypi_release_def session_get_def
      parse_release_def getitem_def select_release_def is_wheel_def release_eval
      release_contains_py_typed_def scan_body_def)

subsection \<open>Release resolution\<close>

text \<open>
  Claim C3, as amended. When the index answers with a non-empty list of well-formed
  release descriptors for the reported version, the resolver returns the last element of
  the list sorted by the key "is a wheel": the last wheel of the list when the list has a
  wheel, and otherwise the last release of the list, which is not a wheel. That release is
  a source distribution when every release of the list is one. The result is a function of
  the input list.
\<close>

theorem release_resolution:
  assumes "http_get w (PYPI_JSON_URL (quote w package)) = Inr resp"
      and "status resp < 400" and "json_body resp = Inr j"
      and "releases j = Some rels" and "info j = Some info_dict"
      and "info_dict ''version'' = Some version" and "rels version = Some rs"
      and "rs \<noteq> []"
      and "\<forall>x \<in> set rs. x ''packagetype'' \<noteq> None \<and> x ''url'' \<noteq> None \<and> x ''filename'' \<noteq> None"
  shows "\<exists>x r. select_release rs = Inr x \<and> x \<in> set rs
           \<and> snd (fetch_latest_pypi_release w package s) = Inr r
           \<and> distribution r = package \<and> x ''url'' = Some (url r)
           \<and> x ''packagetype'' = Some (packagetype r) \<and> x ''filename'' = Some (release_filename r)
           \<and> ((\<exists>y \<in> set rs. is_wheel y) \<longrightarrow>
                x = last (filter is_wheel rs) \<and> packagetype r = ''bdist_wheel'')
           \<and> ((\<forall>y \<in> set rs. \<not> is_wheel y) \<longrightarrow>
                x = last rs \<and> packagetype r \<noteq> ''bdist_wheel'')
           \<and> ((\<forall>y \<in> set rs. \<not> is_wheel y) \<and> (\<forall>y \<in> set rs. y ''packagetype'' = Some ''sdist'') \<longrightarrow>
                packagetype r = ''sdist'')"
proof -
  define x where "x = (if \<exists>y \<in> set rs. is_wheel y then last (filter is_wheel rs) else last rs)"
  have sel: "select_release rs = Inr x"
    unfolding x_def using assms(8,9) by (intro select_release_eq) auto
  have mem: "x \<in> set rs"
  proof (cases "\<exists>y \<in> set rs. is_wheel y")
    case True
    then have "filter is_wheel rs \<noteq> []" by (simp add: filter_empty_conv)
    then have "last (filter is_wheel rs) \<in> set (filter is_wheel rs)" by (rule last_in_set)
    then show ?thesis using True by (simp add: x_def)
  next
    case False
    then show ?thesis using assms(8) by (simp add: x_def)
  qed
  have wh: "is_wheel x" if "\<exists>y \<in> set rs. is_wheel y"
  proof -
    from that have "filter is_wheel rs \<noteq> []" by (simp add: filter_empty_conv)
    then have "last (filter is_wheel rs) \<in> set (filter is_wheel rs)" by (rule last_in_set)
    then show ?thesis using that by (simp add: x_def)
  qed
  from mem assms(9) obtain u pt fn where
    f: "x ''url'' = Some u" "x ''packagetype'' = Some pt" "x ''filename'' = Some fn"
    by fastforce
  define r where "r = \<lparr>distribution = package, url = u, packagetype = pt, release_filename = fn\<rparr>"
  have "parse_release package j = Inr r"
    unfolding r_def using assms(4-7) sel f by (rule parse_release_selected)
  then have res: "snd (fetch_latest_pypi_release w package s) = Inr r"
    using assms(1-3) by (simp add: fetch_eq fetch_result_eq)
  have c1: "(\<exists>y \<in> set rs. is_wheel y) \<longrightarrow> x = last (filter is_wheel rs) \<and> packagetype r = ''bdist_wheel''"
  proof
    assume ex: "\<exists>y \<in> set rs. is_wheel y"
    then have "x ''packagetype'' = Some ''bdist_wheel''" using wh by (simp add: is_wheel_def)
    with f(2) have "pt = ''bdist_wheel''" by simp
    moreover from ex have "x = last (filter is_wheel rs)" by (simp add: x_def)
    ultimately show "x = last (filter is_wheel rs) \<and> packagetype r = ''bdist_wheel''"
      by (simp add: r_def)
  qed
  have c2: "(\<forall>y \<in> set rs. \<not> is_wheel y) \<longrightarrow> x = last rs \<and> packagetype r \<noteq> ''bdist_wheel''"
  proof
    assume no: "\<forall>y \<in> set rs. \<not> is_wheel y"
    with mem have "\<not> is_wheel x" by blast
    with f(2) have "pt \<noteq> ''bdist_wheel''" by (simp add: is_wheel_def)
    moreover from no have "x = last rs" by (simp add: x_def)
    ultimately show "x = last rs \<and> packagetype r \<noteq> ''bdist_wheel''"
      by (simp add: r_def)
  qed
  have c3: "(\<forall>y \<in> set rs. \<not> is_wheel y) \<and> (\<forall>y \<in> set rs. y ''packagetype'' = Some ''sdist'') \<longrightarrow>
                packagetype r = ''sdist''"
    using mem f(2) by (auto simp: r_def)
  have "distribution r = package" "x ''url'' = Some (url r)"
    "x ''packagetype'' = Some (packagetype r)" "x ''filename'' = Some (release_filename r)"
    using f by (simp_all add: r_def)
  with sel mem res c1 c2 c3 show ?thesis by blast
qed

text \<open>The two examples of the specification: \<open>[sdist, wheel]\<close> gives the wheel, \<open>[sdist]\<close> the sdist.\<close>

theorem release_resolution_witness:
  "(\<exists>r. snd (fetch_latest_pypi_release (const_world (meta_response [sdist_release, wheel_release])) ''pkg'' s0) = Inr r
        \<and> packagetype r = ''bdist_wheel'')
   \<and> (\<exists>r. snd (fetch_latest_pypi_release (const_world (meta_response [sdist_release])) ''pkg'' s0) = Inr r
        \<and> packagetype r = ''sdist'')"
proof -
  let ?j = "\<lambda>rs. \<lparr>releases = Some [''1.0'' \<mapsto> rs], info = Some [''version'' \<mapsto> ''1.0'']\<rparr>"
  have a: "\<exists>y \<in> set [sdist_release, wheel_release]. is_wheel y"
    by (simp add: is_wheel_def release_eval)
  have b: "(\<forall>y \<in> set [sdist_release]. \<not> is_wheel y)
           \<and> (\<forall>y \<in> set [sdist_release]. y ''packagetype'' = Some ''sdist'')"
    by (simp add: is_wheel_def release_eval)
  have "\<exists>x r. select_release [sdist_release, wheel_release] = Inr x \<and> x \<in> set [sdist_release, wheel_release]
           \<and> snd (fetch_latest_pypi_release (const_world (meta_response [sdist_release, wheel_release])) ''pkg'' s0) = Inr r
           \<and> distribution r = ''pkg'' \<and> x ''url'' = Some (url r)
           \<and> x ''packagetype'' = Some (packagetype r) \<and> x ''filename'' = Some (release_filename r)
           \<and> ((\<exists>y \<in> set [sdist_release, wheel_release]. is_wheel y) \<longrightarrow>
                x = last (filter is_wheel [sdist_release, wheel_release]) \<and> packagetype r = ''bdist_wheel'')
           \<and> ((\<forall>y \<in> set [sdist_release, wheel_release]. \<not> is_wheel y) \<longrightarrow>
                x = last [sdist_release, wheel_release] \<and> packagetype r \<noteq> ''bdist_wheel'')
           \<and> ((\<forall>y \<in> set [sdist_release, wheel_release]. \<not> is_wheel y) \<and> (\<forall>y \<in> set [sdist_release, wheel_release]. y ''packagetype'' = Some ''sdist'') \<longrightarrow>
                packagetype r = ''sdist'')"
    by (rule release_resolution [where resp = "meta_response [sdist_release, wheel_release]"
          and j = "?j [sdist_release, wheel_release]" and rels = "[''1.0'' \<mapsto> [sdist_release, wheel_release]]"
          and info_dict = "[''version'' \<mapsto> ''1.0'']" and version = "''1.0''"])
       (simp_all add: release_eval)
  with a have w1: "\<exists>r. snd (fetch_latest_pypi_release (const_world (meta_response [sdist_release, wheel_release])) ''pkg'' s0) = Inr r
        \<and> packagetype r = ''bdist_wheel''" by blast
  have "\<exists>x r. select_release [sdist_release] = Inr x \<and> x \<in> set [sdist_release]
           \<and> snd (fetch_latest_pypi_release (const_world (meta_response [sdist_release])) ''pkg'' s0) = Inr r
           \<and> distribution r = ''pkg'' \<and> x ''url'' = Some (url r)
           \<and> x ''packagetype'' = Some (packagetype r) \<and> x ''filename'' = Some (release_filename r)
           \<and> ((\<exists>y \<in> set [sdist_release]. is_wheel y) \<longrightarrow>
                x = last (filter is_wheel [sdist_release]) \<and> packagetype r = ''bdist_wheel'')
           \<and> ((\<forall>y \<in> set [sdist_release]. \<not> is_wheel y) \<longrightarrow>
                x = last [sdist_release] \<and> packagetype r \<noteq> ''bdist_wheel'')
           \<and> ((\<forall>y \<in> set [sdist_release]. \<not> is_wheel y) \<and> (\<forall>y \<in> set [sdist_release]. y ''packagetype'' = Some ''sdist'') \<longrightarrow>
                packagetype r = ''sdist'')"
    by (rule release_resolution [where resp = "meta_response [sdist_release]"
          and j = "?j [sdist_release]" and rels = "[''1.0'' \<mapsto> [sdist_release]]"
          and info_dict = "[''version'' \<mapsto> ''1.0'']" and version = "''1.0''"])
       (simp_all add: release_eval)
  with b have "\<exists>r. snd (fetch_latest_pypi_release (const_world (meta_response [sdist_release])) ''pkg'' s0) = Inr r
        \<and> packagetype r = ''sdist''" by blast
  with w1 show ?thesis by blast
qed

text \<open>
  With no wheel the resolver takes the last release whatever its type: from
  \<open>[sdist, bdist_egg]\<close> it returns the egg, although a source distribution is present.
\<close>

theorem release_resolution_counterexample:
  "snd (fetch_latest_pypi_release (const_world (meta_response [sdist_release, egg_release])) ''pkg'' s0)
     = Inr \<lparr>distribution = ''pkg'', url = ''https://files/pkg-1.0-py3.egg'',
            packagetype = ''bdist_egg'', release_filename = ''pkg-1.0-py3.egg''\<rparr>
   \<and> \<not> is_wheel sdist_release \<and> \<not> is_wheel egg_release
   \<and> sdist_release ''packagetype'' = Some ''sdist''
   \<and> ''bdist_egg'' \<noteq> ''sdist''"
  by (simp add: fetch_latest_pypi_release_def session_get_def parse_release_def getitem_def
      select_release_def is_wheel_def release_eval)

subsection \<open>Scanning\<close>

lemma endswith_last: "endswith s suf \<Longrightarrow> suf \<noteq> [] \<Longrightarrow> last s = last suf"
  by (metis endswith_def last_drop length_0_conv length_drop diff_diff_cancel
      diff_is_0_eq' le_zero_eq not_le order_less_imp_le)

lemma zip_not_tar_gz: "endswith s ''.zip'' \<Longrightarrow> \<not> endswith s ''.tar.gz''"
  using endswith_last [of s "''.zip''"] endswith_last [of s "''.tar.gz''"] by auto

text \<open>
  Claim C4. Once the artifact is downloaded, a wheel whose file name ends in \<open>.whl\<close> and a
  source distribution whose file name ends in \<open>.zip\<close> are read as zip archives, a source
  distribution whose file name ends in \<open>.tar.gz\<close> as a tar archive, and the evaluator runs
  on the entries. A file name that ends in none of the three raises \<open>AssertionError\<close>,
  whatever the package type; the package's task then logs the error after exactly one
  metadata request and one download, and writes no row.
\<close>

theorem scanning_dispatch:
  assumes "http_get w (url r) = Inr resp" and "content resp = Inr body"
  shows "(packagetype r = ''bdist_wheel'' \<and> endswith (release_filename r) ''.whl'' \<longrightarrow>
            snd (release_contains_py_typed w r s) =
              map_sum id (\<lambda>zf. all_py_files_in_source_are_in_py_typed_dirs (ZipFile zf)) (open_zip w body))
       \<and> (packagetype r = ''sdist'' \<and> endswith (release_filename r) ''.zip'' \<longrightarrow>
            snd (release_contains_py_typed w r s) =
              map_sum id (\<lambda>zf. all_py_files_in_source_are_in_py_typed_dirs (ZipFile zf)) (open_zip w body))
       \<and> (packagetype r = ''sdist'' \<and> endswith (release_filename r) ''.tar.gz'' \<longrightarrow>
            snd (release_contains_py_typed w r s) =
              map_sum id (\<lambda>zf. all_py_files_in_source_are_in_py_typed_dirs (TarFile zf)) (open_tar w body))
       \<and> (\<not> endswith (release_filename r) ''.whl'' \<and> \<not> endswith (release_filename r) ''.zip''
            \<and> \<not> endswith (release_filename r) ''.tar.gz'' \<longrightarrow>
            release_contains_py_typed w r s =
              (s\<lparr>requests := requests s @ [(distribution r, url r)]\<rparr>, Inl AssertionError)
            \<and> (snd (fetch_latest_pypi_release w pkg s) = Inr r \<longrightarrow>
                 process_package w pkg i tot s =
                   (s\<lparr>requests := requests s @ [(pkg, PYPI_JSON_URL (quote w pkg)), (pkg, url r)],
                      logged := logged s @ [ErrorProcessing i tot pkg AssertionError]\<rparr>, Inr ())))"
proof (intro conjI impI)
  assume "packagetype r = ''bdist_wheel'' \<and> endswith (release_filename r) ''.whl''"
  then show "snd (release_contains_py_typed w r s) =
      map_sum id (\<lambda>zf. all_py_files_in_source_are_in_py_typed_dirs (ZipFile zf)) (open_zip w body)"
    using assms by (simp add: release_eq download_result_eq scan_body_def split: sum.splits)
next
  assume a: "packagetype r = ''sdist'' \<and> endswith (release_filename r) ''.zip''"
  then have "\<not> endswith (release_filename r) ''.tar.gz''" by (simp add: zip_not_tar_gz)
  with a show "snd (release_contains_py_typed w r s) =
      map_sum id (\<lambda>zf. all_py_files_in_source_are_in_py_typed_dirs (ZipFile zf)) (open_zip w body)"
    using assms by (simp add: release_eq download_result_eq scan_body_def split: sum.splits)
next
  assume "packagetype r = ''sdist'' \<and> endswith (release_filename r) ''.tar.gz''"
  then show "snd (release_contains_py_typed w r s) =
      map_sum id (\<lambda>zf. all_py_files_in_source_are_in_py_typed_dirs (TarFile zf)) (open_tar w body)"
    using assms by (simp add: release_eq download_result_eq scan_body_def split: sum.splits)
next
  assume a: "\<not> endswith (release_filename r) ''.whl'' \<and> \<not> endswith (release_filename r) ''.zip''
            \<and> \<not> endswith (release_filename r) ''.tar.gz''"
  then have d: "download_result w r = Inl AssertionError"
    using assms by (simp add: download_result_eq scan_body_def)
  then show "release_contains_py_typed w r s =
      (s\<lparr>requests := requests s @ [(distribution r, url r)]\<rparr>, Inl AssertionError)"
    by (simp add: release_eq)
  assume f: "snd (fetch_latest_pypi_release w pkg s) = Inr r"
  then have fr: "fetch_result w pkg = Inr r" by (simp add: fetch_eq)
  then have dr: "distribution r = pkg" by (rule fetch_result_distribution)
  have "is_typed_package w pkg s0 =
          (s0\<lparr>requests := requests s0 @ [(pkg, PYPI_JSON_URL (quote w pkg)), (pkg, url r)]\<rparr>,
           Inl AssertionError)"
    using fr d dr by (simp add: is_typed_package_def fetch_eq release_eq)
  then have "typed_result w pkg = Inl AssertionError"
    "typed_requests w pkg = [(pkg, PYPI_JSON_URL (quote w pkg)), (pkg, url r)]"
    by (simp_all add: typed_result_def typed_requests_def s0_def)
  then show "process_package w pkg i tot s =
      (s\<lparr>requests := requests s @ [(pkg, PYPI_JSON_URL (quote w pkg)), (pkg, url r)],
         logged := logged s @ [ErrorProcessing i tot pkg AssertionError]\<rparr>, Inr ())"
    by (simp add: process_package_eq)
qed

theorem scanning_dispatch_witness:
  "snd (release_contains_py_typed (const_world (meta_response [])) wheel_download s0) = Inr True
   \<and> snd (release_contains_py_typed (const_world (meta_response [])) sdist_zip_download s0) = Inr True
   \<and> snd (release_contains_py_typed (const_world (meta_response [])) sdist_tar_download s0) = Inr True
   \<and> snd (release_contains_py_typed (const_world (meta_response [])) sdist_tar_bz2_download s0)
       = Inl AssertionError
   \<and> process_package (const_world (meta_response [egg_release])) ''pkg'' 1 1 s0 =
       (s0\<lparr>requests := requests s0 @ [(''pkg'', PYPI_JSON_URL ''pkg''), (''pkg'', ''https://files/pkg-1.0-py3.egg'')],
           logged := logged s0 @ [ErrorProcessing 1 1 ''pkg'' AssertionError]\<rparr>, Inr ())"
proof -
  have c: "content (meta_response rs) = Inr ''PK''" for rs
    by (simp add: meta_response_def)
  have z: "open_zip (const_world resp) b = Inr covered_infolist"
    and t: "open_tar (const_world resp) b = Inr covered_members"
    and q: "quote (const_world resp) x = x" for resp b x
    by (simp_all add: const_world_def)
  have f: "snd (fetch_latest_pypi_release (const_world (meta_response [egg_release])) ''pkg'' s0)
             = Inr \<lparr>distribution = ''pkg'', url = ''https://files/pkg-1.0-py3.egg'',
                    packagetype = ''bdist_egg'', release_filename = ''pkg-1.0-py3.egg''\<rparr>"
    by (simp add: fetch_latest_pypi_release_def session_get_def parse_release_def getitem_def
        select_release_def is_wheel_def release_eval)
  show ?thesis
    using scanning_dispatch [where w = "const_world (meta_response [])" and r = wheel_download
        and s = s0, OF const_world_get c]
      scanning_dispatch [where w = "const_world (meta_response [])" and r = sdist_zip_download
        and s = s0, OF const_world_get c]
      scanning_dispatch [where w = "const_world (meta_response [])" and r = sdist_tar_download
        and s = s0, OF const_world_get c]
      scanning_dispatch [where w = "const_world (meta_response [])" and r = sdist_tar_bz2_download
        and s = s0, OF const_world_get c]
      scanning_dispatch [where w = "const_world (meta_response [egg_release])"
        and r = "\<lparr>distribution = ''pkg'', url = ''https://files/pkg-1.0-py3.egg'',
                  packagetype = ''bdist_egg'', release_filename = ''pkg-1.0-py3.egg''\<rparr>"
        and s = s0 and pkg = "''pkg''" and i = 1 and tot = 1, OF const_world_get c]
      f
    by (simp add: z t q endswith_def wheel_download_def sdist_zip_download_def
        sdist_tar_download_def sdist_tar_bz2_download_def covered_infolist_typed
        covered_members_typed)
qed

subsection \<open>Stub lookup\<close>

text \<open>
  Claim C5. The stub lookup issues one request, for the metadata of \<open>types-<package>\<close>, and
  answers \<open>True\<close> on status 200, \<open>False\<close> on status 404, and \<open>None\<close> on any other status
  and on a transport error; it never writes to the table. When the scan of a package
  returned false, the task runs the lookup and writes the row with that answer, whatever
  the answer is.
\<close>

theorem stub_lookup:
  "(snd (has_types_stub_package w pkg s) =
      (case http_get w (''https://pypi.org/pypi/'' @ quote w (''types-'' @ pkg) @ ''/json'') of
         Inr resp \<Rightarrow> if status resp = 200 then Some True
                      else if status resp = 404 then Some False else None
       | Inl e \<Rightarrow> None))
   \<and> requests (fst (has_types_stub_package w pkg s)) =
        requests s @ [(pkg, ''https://pypi.org/pypi/'' @ quote w (''types-'' @ pkg) @ ''/json'')]
   \<and> output_file (fst (has_types_stub_package w pkg s)) = output_file s
   \<and> (snd (is_typed_package w pkg s) = Inr False \<longrightarrow>
        snd (process_package w pkg i tot s) = Inr ()
      \<and> (pkg, ''https://pypi.org/pypi/'' @ quote w (''types-'' @ pkg) @ ''/json'')
           \<in> set (requests (fst (process_package w pkg i tot s)))
      \<and> output_file (fst (process_package w pkg i tot s)) =
           Some (rows_of (output_file s)
                 @ [(pkg, False, snd (has_types_stub_package w pkg s))]))"
proof (intro conjI impI)
  show "snd (has_types_stub_package w pkg s) =
      (case http_get w (''https://pypi.org/pypi/'' @ quote w (''types-'' @ pkg) @ ''/json'') of
         Inr resp \<Rightarrow> if status resp = 200 then Some True
                      else if status resp = 404 then Some False else None
       | Inl e \<Rightarrow> None)"
    by (simp add: stub_eq stub_result_eq PYPI_JSON_URL_def)
  show "requests (fst (has_types_stub_package w pkg s)) =
        requests s @ [(pkg, ''https://pypi.org/pypi/'' @ quote w (''types-'' @ pkg) @ ''/json'')]"
    by (simp add: stub_eq PYPI_JSON_URL_def)
  show "output_file (fst (has_types_stub_package w pkg s)) = output_file s"
    by (simp add: stub_eq)
next
  assume "snd (is_typed_package w pkg s) = Inr False"
  then have t: "typed_result w pkg = Inr False" by (simp add: is_typed_eq)
  show "snd (process_package w pkg i tot s) = Inr ()" by (rule process_package_result)
  show "(pkg, ''https://pypi.org/pypi/'' @ quote w (''types-'' @ pkg) @ ''/json'')
           \<in> set (requests (fst (process_package w pkg i tot s)))"
    using t by (simp add: process_package_eq PYPI_JSON_URL_def)
  show "output_file (fst (process_package w pkg i tot s)) =
           Some (rows_of (output_file s) @ [(pkg, False, snd (has_types_stub_package w pkg s))])"
    using t by (simp add: process_package_eq stub_eq)
qed

theorem stub_lookup_witness:
  "output_file (fst (process_package (stub_world (Inr (meta_response []))) ''pkg'' 1 1 s0))
     = Some [(''pkg'', False, Some True)]
   \<and> output_file (fst (process_package (stub_world (Inr not_found)) ''pkg'' 1 1 s0))
     = Some [(''pkg'', False, Some False)]
   \<and> output_file (fst (process_package (stub_world (Inr server_error)) ''pkg'' 1 1 s0))
     = Some [(''pkg'', False, None)]
   \<and> output_file (fst (process_package (stub_world (Inl ClientError)) ''pkg'' 1 1 s0))
     = Some [(''pkg'', False, None)]"
  using stub_lookup [where w = "stub_world (Inr (meta_response []))" and pkg = "''pkg''"
      and s = s0 and i = 1 and tot = 1]
    stub_lookup [where w = "stub_world (Inr not_found)" and pkg = "''pkg''"
      and s = s0 and i = 1 and tot = 1]
    stub_lookup [where w = "stub_world (Inr server_error)" and pkg = "''pkg''"
      and s = s0 and i = 1 and tot = 1]
    stub_lookup [where w = "stub_world (Inl ClientError)" and pkg = "''pkg''"
      and s = s0 and i = 1 and tot = 1]
    stub_world_untyped
  by (simp add: stub_world_def meta_response_def not_found_def server_error_def rows_of_def s0_def)

subsection \<open>Failed packages\<close>

text \<open>
  Claim C6. When the classification of a package raises, at whichever step, the task
  returns normally, logs the error and leaves the output table as it was. In a batch the
  table is the one the batch without that task produces, and neither \<open>gather\<close> nor
  \<open>main\<close> raises.
\<close>

theorem failed_package_isolated:
  assumes "snd (is_typed_package w pkg s) = Inl e"
  shows "snd (process_package w pkg i tot s') = Inr ()
       \<and> output_file (fst (process_package w pkg i tot s')) = output_file s'
       \<and> logged (fst (process_package w pkg i tot s')) = logged s' @ [ErrorProcessing i tot pkg e]
       \<and> snd (gather w (ts1 @ (pkg, i, tot) # ts2) s') = Inr ()
       \<and> output_file (fst (gather w (ts1 @ (pkg, i, tot) # ts2) s'))
           = output_file (fst (gather w (ts1 @ ts2) s'))
       \<and> snd (main w s') = Inr ()"
proof -
  from assms have t: "typed_result w pkg = Inl e" by (simp add: is_typed_eq)
  then have "task_rows w pkg = []" by (rule task_rows_failed)
  then have "output_file (fst (gather w (ts1 @ (pkg, i, tot) # ts2) s'))
           = output_file (fst (gather w (ts1 @ ts2) s'))"
    by (simp add: gather_output)
  moreover have "snd (main w s') = Inr ()" using main_eq [of s' w] by blast
  ultimately show ?thesis
    using t by (simp add: process_package_eq gather_result)
qed

theorem failed_package_isolated_witness:
  "snd (process_package (const_world not_found) ''pkg'' 1 1 done_state) = Inr ()
   \<and> output_file (fst (process_package (const_world not_found) ''pkg'' 1 1 done_state))
       = Some [(''pkg'', True, None)]
   \<and> logged (fst (process_package (const_world not_found) ''pkg'' 1 1 done_state))
       = [ErrorProcessing 1 1 ''pkg'' (ClientResponseError 404)]
   \<and> output_file (fst (process_package (const_world broken_download) ''pkg'' 1 1 done_state))
       = Some [(''pkg'', True, None)]
   \<and> logged (fst (process_package (const_world (meta_response [egg_release])) ''pkg'' 1 1 done_state))
       = [ErrorProcessing 1 1 ''pkg'' AssertionError]
   \<and> output_file (fst (gather (const_world not_found) [(''pkg'', 1, 1)] s0)) = None"
  using failed_package_isolated [OF not_found_fails, where i = 1 and tot = 1
      and s' = done_state and ?ts1.0 = "[]" and ?ts2.0 = "[]"]
    failed_package_isolated [OF not_found_fails, where i = 1 and tot = 1
      and s' = s0 and ?ts1.0 = "[]" and ?ts2.0 = "[]"]
    failed_package_isolated [OF broken_download_fails, where i = 1 and tot = 1
      and s' = done_state and ?ts1.0 = "[]" and ?ts2.0 = "[]"]
    failed_package_isolated [OF egg_fails, where i = 1 and tot = 1
      and s' = done_state and ?ts1.0 = "[]" and ?ts2.0 = "[]"]
  by (simp add: done_state_def s0_def)

subsection \<open>Resumption\<close>

text \<open>
  Claim C7, as amended. A run never raises. For a package \<open>P\<close> that has a row in the
  output table loaded at the start, the run adds no row for \<open>P\<close> and issues no request on
  behalf of \<open>P\<close>. When the table had at most one row for each package and the names read
  from the input are distinct, the table has at most one row for each package after the
  run.
\<close>

theorem processed_package_skipped:
  "snd (main w s) = Inr ()
   \<and> (P \<in> load_processed_packages s \<longrightarrow>
        filter (\<lambda>r. fst r = P) (rows_of (output_file (fst (main w s))))
          = filter (\<lambda>r. fst r = P) (rows_of (output_file s))
      \<and> filter (\<lambda>q. fst q = P) (requests (fst (main w s)))
          = filter (\<lambda>q. fst q = P) (requests s))
   \<and> (distinct (map fst (rows_of (output_file s)))
        \<and> distinct (get_package_names (input_file w) (Some 100)) \<longrightarrow>
      distinct (map fst (rows_of (output_file (fst (main w s))))))"
proof (intro conjI impI)
  show "snd (main w s) = Inr ()" using main_eq [of s w] by blast
next
  assume P: "P \<in> load_processed_packages s"
  obtain pkgs rows where r:
    "set pkgs \<subseteq> set (get_package_names (input_file w) (Some 100)) - load_processed_packages s"
    "map fst rows = pkgs" "output_file (fst (main w s)) = add_rows rows (output_file s)"
    using main_rows [of w s] by blast
  have "fst x \<in> set pkgs" if "x \<in> set rows" for x
    using that r(2) by force
  with r(1) P have "\<forall>x \<in> set rows. fst x \<noteq> P" by blast
  then have "filter (\<lambda>r. fst r = P) rows = []" by (simp add: filter_empty_conv)
  then show "filter (\<lambda>r. fst r = P) (rows_of (output_file (fst (main w s))))
          = filter (\<lambda>r. fst r = P) (rows_of (output_file s))"
    by (simp add: r(3))
next
  assume P: "P \<in> load_processed_packages s"
  obtain reqs where q:
    "fst ` set reqs \<subseteq> set (get_package_names (input_file w) (Some 100)) - load_processed_packages s"
    "requests (fst (main w s)) = requests s @ reqs"
    using main_requests [of w s] by blast
  from q(1) P have "\<forall>x \<in> set reqs. fst x \<noteq> P" by auto
  then have "filter (\<lambda>q. fst q = P) reqs = []" by (simp add: filter_empty_conv)
  then show "filter (\<lambda>q. fst q = P) (requests (fst (main w s)))
          = filter (\<lambda>q. fst q = P) (requests s)"
    by (simp add: q(2))
next
  assume d: "distinct (map fst (rows_of (output_file s)))
        \<and> distinct (get_package_names (input_file w) (Some 100))"
  obtain pkgs rows where r:
    "set pkgs \<subseteq> set (get_package_names (input_file w) (Some 100)) - load_processed_packages s"
    "distinct (get_package_names (input_file w) (Some 100)) \<longrightarrow> distinct pkgs"
    "map fst rows = pkgs" "output_file (fst (main w s)) = add_rows rows (output_file s)"
    using main_rows [of w s] by blast
  from r(1) have "set pkgs \<inter> fst ` set (rows_of (output_file s)) = {}"
    unfolding load_processed_rows by auto
  with d r(2) show "distinct (map fst (rows_of (output_file (fst (main w s)))))"
    by (auto simp: r(3,4) simp flip: r(3))
qed

theorem processed_package_skipped_witness:
  "filter (\<lambda>r. fst r = ''pkg'')
      (rows_of (output_file (fst (main (const_world (meta_response [wheel_release])) done_state))))
     = [(''pkg'', True, None)]
   \<and> filter (\<lambda>q. fst q = ''pkg'')
        (requests (fst (main (const_world (meta_response [wheel_release])) done_state))) = []
   \<and> distinct (map fst
        (rows_of (output_file (fst (main (const_world (meta_response [wheel_release])) done_state)))))"
  using processed_package_skipped [where w = "const_world (meta_response [wheel_release])"
      and s = done_state and P = "''pkg''"]
  by (simp add: load_processed_packages_def done_state_def rows_of_def const_world_def
      get_package_names_def enumerate_eq_zip)

text \<open>
  The set of processed packages is loaded once, before any task starts: an input that
  names an unprocessed package twice gets two rows for it.
\<close>

theorem processed_package_skipped_counterexample:
  "rows_of (output_file (fst (main duplicate_names s0))) = [(''a'', True, None), (''a'', True, None)]"
proof -
  have t: "typed_result duplicate_names ''a'' = Inr True"
    by (simp add: typed_result_def is_typed_package_def fetch_latest_pypi_release_def
        session_get_def parse_release_def getitem_def select_release_def is_wheel_def
        release_eval release_contains_py_typed_def scan_body_def endswith_def
        duplicate_names_def covered_infolist_typed)
  have g: "get_package_names (input_file duplicate_names) (Some 100) = [''a'', ''a'']"
    by (simp add: get_package_names_def duplicate_names_def const_world_def enumerate_eq_zip)
  show ?thesis
    using t
    by (simp add: main_def g Let_def load_processed_packages_def s0_def enumerate_eq_zip
        process_package_eq rows_of_def)
qed

section \<open>Properties of the new-package detection\<close>

subsection \<open>The set of new packages\<close>

lemma get_names_from_csv_iff:
  "x |\<in>| get_names_from_csv reader column_name \<longleftrightarrow>
     x \<noteq> [] \<and> (\<exists>row \<in> set reader. row column_name = Some x)"
proof -
  have "x \<in> set (case row column_name of None \<Rightarrow> [] | Some v \<Rightarrow> if v \<noteq> [] then [v] else [])
          \<longleftrightarrow> x \<noteq> [] \<and> row column_name = Some x" for row :: csv_row
    by (cases "row column_name") auto
  then show ?thesis
    by (simp add: get_names_from_csv_def fset_of_list_elem)
qed

text \<open>
  Claim C8. The set of new packages is the remote set minus the local set minus the fixed
  exclusion set; no issue is filed when it is empty, and otherwise the issue is composed
  from exactly this set.
\<close>

theorem new_package_detection:
  assumes "remote_csv w = Inr remote_rows" and "local_csv w = Inr local_rows"
  shows "(\<forall>x. x |\<in>| new_packages (get_names_from_csv remote_rows ''project'')
                          (get_names_from_csv local_rows ''package'') \<longleftrightarrow>
              x |\<in>| get_names_from_csv remote_rows ''project''
            \<and> x |\<notin>| get_names_from_csv local_rows ''package''
            \<and> x |\<notin>| NON_EXISTENT_PROJECTS)
       \<and> (new_packages (get_names_from_csv remote_rows ''project'')
                        (get_names_from_csv local_rows ''package'') = {||} \<longrightarrow>
            detect_main w = Inr None)
       \<and> (new_packages (get_names_from_csv remote_rows ''project'')
                        (get_names_from_csv local_rows ''package'') \<noteq> {||} \<longrightarrow>
            detect_main w =
              map_sum id Some
                (create_or_update_issue w
                   (new_packages (get_names_from_csv remote_rows ''project'')
                                 (get_names_from_csv local_rows ''package''))))"
proof -
  let ?new = "new_packages (get_names_from_csv remote_rows ''project'')
                (get_names_from_csv local_rows ''package'')"
  have o: "get_original_packages w = Inr (get_names_from_csv remote_rows ''project'')"
    and l: "get_local_packages w = Inr (get_names_from_csv local_rows ''package'')"
    using assms by (simp_all add: get_original_packages_def get_local_packages_def)
  have m: "map_sum id Some r = (case r of Inl e \<Rightarrow> Inl e | Inr cmd \<Rightarrow> Inr (Some cmd))"
    for r :: "error + string list"
    by (cases r) simp_all
  have "\<forall>x. x |\<in>| ?new \<longleftrightarrow>
              x |\<in>| get_names_from_csv remote_rows ''project''
            \<and> x |\<notin>| get_names_from_csv local_rows ''package''
            \<and> x |\<notin>| NON_EXISTENT_PROJECTS"
    by (simp add: new_packages_def)
  moreover have "?new = {||} \<longrightarrow> detect_main w = Inr None"
    by (simp add: detect_main_def o l)
  moreover have "?new \<noteq> {||} \<longrightarrow> detect_main w = map_sum id Some (create_or_update_issue w ?new)"
    by (simp add: detect_main_def o l m)
  ultimately show ?thesis by blast
qed

lemma names_remote_abc:
  "get_names_from_csv remote_abc ''project'' = {|''a'', ''b'', ''pyairports''|}"
  by (simp add: get_names_from_csv_def remote_abc_def)

lemma names_local_a: "get_names_from_csv local_a ''package'' = {|''a''|}"
  by (simp add: get_names_from_csv_def local_a_def)

lemma names_local_ab: "get_names_from_csv local_ab ''package'' = {|''a'', ''b''|}"
  by (simp add: get_names_from_csv_def local_ab_def)

lemma new_abc: "new_packages (get_names_from_csv remote_abc ''project'')
                  (get_names_from_csv local_a ''package'') = {|''b''|}"
  unfolding names_remote_abc names_local_a new_packages_def NON_EXISTENT_PROJECTS_def
  by (simp add: finsert_fminus_if)

lemma new_ab: "new_packages (get_names_from_csv remote_abc ''project'')
                  (get_names_from_csv local_ab ''package'') = {||}"
  unfolding names_remote_abc names_local_ab new_packages_def NON_EXISTENT_PROJECTS_def
  by (simp add: finsert_fminus_if)

text \<open>
  Remote \<open>{a, b, pyairports}\<close>, local \<open>{a}\<close>, and \<open>pyairports\<close> excluded: the issue reports
  \<open>b\<close> alone. With \<open>b\<close> in the local table too, nothing is filed.
\<close>

theorem new_package_detection_witness:
  "detect_main (detect_abc local_a) =
     Inr (Some [''gh'', ''issue'', ''create'', ''--title'', issue_title,
                ''--body'', compose_body {|''b''|}, ''--label'', ''new package, enhancement''])
   \<and> detect_main (detect_abc local_ab) = Inr None"
  using new_package_detection [where w = "detect_abc local_a" and remote_rows = remote_abc
      and local_rows = local_a]
    new_package_detection [where w = "detect_abc local_ab" and remote_rows = remote_abc
      and local_rows = local_ab]
  by (simp add: new_abc new_ab detect_abc_def create_or_update_issue_def)

subsection \<open>The issue body\<close>

lemma foldl_append_lines: "foldl (\<lambda>body pkg. body @ f pkg) h xs = h @ concat (map f xs)"
  by (induction xs arbitrary: h) simp_all

lemma length_sorted_list_of_fset: "length (sorted_list_of_fset S) = fcard S"
  by (simp add: sorted_list_of_fset.rep_eq fcard.rep_eq)

lemma sorted_sorted_list_of_fset: "sorted (sorted_list_of_fset S)"
  by (simp add: sorted_list_of_fset.rep_eq)

lemma distinct_sorted_list_of_fset: "distinct (sorted_list_of_fset S)"
  by (simp add: sorted_list_of_fset.rep_eq)

lemma compose_body_eq:
  "compose_body packages =
     body_header (fcard packages)
     @ concat (map (\<lambda>pkg. ''- '' @ pkg @ [CHR 0x0A]) (displayed packages))
     @ (if 20 < fcard packages
        then [CHR 0x0A] @ ''... and '' @ str_nat (fcard packages - 20) @ '' more.''
        else [])"
proof -
  have h: "(0 < int (fcard packages) - int max_display) = (20 < fcard packages)"
    "nat (int (fcard packages) - int max_display) = fcard packages - 20"
    by (simp_all add: max_display_def)
  show ?thesis
    unfolding compose_body_def Let_def foldl_append_lines h displayed_def by simp
qed

lemma displayed_smallest:
  assumes "x \<in> set (displayed packages)" and "y |\<in>| packages" and "y \<notin> set (displayed packages)"
  shows "x < y"
proof -
  let ?xs = "sorted_list_of_fset packages"
  have s: "sorted (take 20 ?xs @ drop 20 ?xs)" and d: "distinct (take 20 ?xs @ drop 20 ?xs)"
    by (simp_all add: sorted_sorted_list_of_fset distinct_sorted_list_of_fset)
  have "set ?xs = set (take 20 ?xs) \<union> set (drop 20 ?xs)"
    by (metis append_take_drop_id set_append)
  moreover from assms(2) have "y \<in> set ?xs" by simp
  moreover from assms(3) have "y \<notin> set (take 20 ?xs)"
    by (simp add: displayed_def max_display_def)
  ultimately have y: "y \<in> set (drop 20 ?xs)" by blast
  from assms(1) have x: "x \<in> set (take 20 ?xs)" by (simp add: displayed_def max_display_def)
  from s x y have "x \<le> y" unfolding sorted_append by blast
  moreover from d x y have "x \<noteq> y" unfolding distinct_append by blast
  ultimately show ?thesis by simp
qed

text \<open>
  Claim C9. With more than 20 packages the body is the header, one line for each of the 20
  smallest names in ascending order, and the line \<open>... and <n> more.\<close> with \<open>n\<close> the
  number of packages minus 20. With 20 packages or fewer the body is the header and one
  line for each name, and nothing else.
\<close>

theorem issue_composition:
  "(20 < fcard packages \<longrightarrow>
      compose_body packages =
        body_header (fcard packages) @ concat (map (\<lambda>pkg. ''- '' @ pkg @ [CHR 0x0A]) (displayed packages))
        @ [CHR 0x0A] @ ''... and '' @ str_nat (fcard packages - 20) @ '' more.''
      \<and> length (displayed packages) = 20)
   \<and> (fcard packages \<le> 20 \<longrightarrow>
      compose_body packages =
        body_header (fcard packages) @ concat (map (\<lambda>pkg. ''- '' @ pkg @ [CHR 0x0A]) (displayed packages))
      \<and> set (displayed packages) = fset packages)
   \<and> sorted (displayed packages) \<and> distinct (displayed packages)
   \<and> (\<forall>x \<in> set (displayed packages). x |\<in>| packages
        \<and> (\<forall>y. y |\<in>| packages \<and> y \<notin> set (displayed packages) \<longrightarrow> x < y))"
proof -
  have m: "x |\<in>| packages" if "x \<in> set (displayed packages)" for x
    using that in_set_takeD [of x max_display "sorted_list_of_fset packages"]
    by (simp add: displayed_def)
  have "sorted (displayed packages)" "distinct (displayed packages)"
    by (simp_all add: displayed_def sorted_sorted_list_of_fset distinct_sorted_list_of_fset
        sorted_wrt_take)
  moreover have "20 < fcard packages \<longrightarrow> length (displayed packages) = 20"
    by (simp add: displayed_def max_display_def length_sorted_list_of_fset)
  moreover have "fcard packages \<le> 20 \<longrightarrow> set (displayed packages) = fset packages"
    by (simp add: displayed_def max_display_def length_sorted_list_of_fset)
  ultimately show ?thesis
    using m displayed_smallest [of _ packages]
    by (simp add: compose_body_eq)
qed

lemma sorted_names25:
  "sorted_list_of_fset (fset_of_list names25) =
     [''boto3'', ''click'', ''django'', ''ecdsa'', ''flask'', ''grpcio'', ''httpx'', ''idna'',
      ''jinja2'', ''kombu'', ''lxml'', ''mypy'', ''numpy'', ''orjson'', ''pytz'', ''qtpy'', ''rich'',
      ''six'', ''tqdm'', ''urllib3'', ''vcrpy'', ''wheel'', ''xarray'', ''yarl'', ''zope'']"
proof -
  have "sorted_list_of_fset (fset_of_list names25) = sort (remdups names25)"
    by (simp add: sorted_list_of_fset.rep_eq fset_of_list.rep_eq sorted_list_of_set_sort_remdups)
  also have "\<dots> = [''boto3'', ''click'', ''django'', ''ecdsa'', ''flask'', ''grpcio'', ''httpx'', ''idna'',
      ''jinja2'', ''kombu'', ''lxml'', ''mypy'', ''numpy'', ''orjson'', ''pytz'', ''qtpy'', ''rich'',
      ''six'', ''tqdm'', ''urllib3'', ''vcrpy'', ''wheel'', ''xarray'', ''yarl'', ''zope'']"
    unfolding names25_def by code_simp
  finally show ?thesis .
qed

lemma fcard_names25: "fcard (fset_of_list names25) = 25"
proof -
  have "fcard (fset_of_list names25) = length (sorted_list_of_fset (fset_of_list names25))"
    by (simp add: length_sorted_list_of_fset)
  then show ?thesis by (simp add: sorted_names25)
qed

lemma str_nat_5: "str_nat 5 = ''5''"
  by (simp add: str_nat.simps)

lemma str_nat_25: "str_nat 25 = ''25''"
  by (simp add: str_nat.simps)

text \<open>Twenty-five packages: the first twenty in order, and \<open>... and 5 more.\<close>\<close>

theorem issue_composition_witness:
  "compose_body (fset_of_list names25) =
     ''25 new packages were found  in ''
     @ ''[top-pypi-packages](https://github.com/hugovk/top-pypi-packages/blob/main/top-pypi-packages.csv) ''
     @ ''that are missing from our dataset.'' @ [CHR 0x0A, CHR 0x0A]
     @ concat (map (\<lambda>pkg. ''- '' @ pkg @ [CHR 0x0A])
         [''boto3'', ''click'', ''django'', ''ecdsa'', ''flask'', ''grpcio'', ''httpx'', ''idna'',
          ''jinja2'', ''kombu'', ''lxml'', ''mypy'', ''numpy'', ''orjson'', ''pytz'', ''qtpy'', ''rich'',
          ''six'', ''tqdm'', ''urllib3''])
     @ [CHR 0x0A] @ ''... and 5 more.''"
  using issue_composition [of "fset_of_list names25"]
  by (simp add: fcard_names25 displayed_def max_display_def sorted_names25 body_header_def
      str_nat_5 str_nat_25)

end
